theory Spec2Isabelle
  imports Main "HOL-Library.AList"
begin

section \<open>Conventions of the embedding\<close>

text \<open>
  The Go sources are embedded function by function. A Go \<open>int\<close> or \<open>int64\<close> is a HOL
  \<open>int\<close>: none of the functions embedded here does arithmetic near the limits of the
  machine type (coordinates are a few chunk radii large, token fields are only compared).
  A Go map is an association list with distinct keys, written with \<open>AList.update\<close>
  (store), \<open>AList.delete\<close> (delete), \<open>map_of\<close> (lookup) and \<open>length\<close> (\<open>len\<close>).
  A run-time panic is a value of type \<open>panic\<close>, a returned \<open>error\<close> a value of type
  \<open>error\<close>. Wall-clock readings (\<open>time.Now()\<close>) are parameters.
\<close>

datatype panic =
    MakeSliceCapOutOfRange
  | IndexOutOfRange
  | IntegerDivideByZero
  | NilPointerDereference
  | SendOnClosedChannel

text \<open>
  The errors the embedded functions return. \<open>LibraryError\<close> is an error of an external
  package carried as its message (a transport error of the Redis client, for one); the
  six \<open>ErrToken...\<close> are the errors of the JWT library, the wrapping ones with what they
  wrap; \<open>ParseFailed\<close> is \<open>fmt.Errorf("failed to parse token: %w", err)\<close>.
\<close>

datatype error =
    LibraryError string
  | ErrTokenMalformed
  | ErrTokenUnverifiable error
  | ErrTokenSignatureInvalid
  | ErrTokenExpired
  | ErrTokenNotValidYet
  | ErrTokenInvalidClaims "error list"
  | UnexpectedSigningMethod
  | ParseFailed error
  | InvalidTokenClaims
  | InvalidIssuer string string
  | TokenExpired
  | UserNotActivated
  | UserBanned
  | TokenBlacklisted
  | NotImplemented

section \<open>The hex kernel (external/hexcore/hex)\<close>

datatype Axial = Axial (Q: int) (R: int)

datatype Cube = Cube (X: int) (Y: int) (Z: int)

definition Directions :: "Axial list" where
  "Directions = [Axial 1 0, Axial 1 (- 1), Axial 0 (- 1), Axial (- 1) 0, Axial (- 1) 1, Axial 0 1]"

definition Add :: "Axial \<Rightarrow> Axial \<Rightarrow> Axial" where
  "Add a b = Axial (Q a + Q b) (R a + R b)"

definition Mul :: "Axial \<Rightarrow> int \<Rightarrow> Axial" where
  "Mul a k = Axial (Q a * k) (R a * k)"

definition ToCube :: "Axial \<Rightarrow> Cube" where
  "ToCube a = (let x = Q a; z = R a; y = - x - z in Cube x y z)"

text \<open>
  \<open>DistanceCube\<close> takes the absolute values through \<open>float64\<close>; the conversion is exact
  for magnitudes below \<open>2^53\<close>, so it is the integer absolute value here.
\<close>

definition DistanceCube :: "Cube \<Rightarrow> Cube \<Rightarrow> int" where
  "DistanceCube a b =
     (let dx = \<bar>X a - X b\<bar>; dy = \<bar>Y a - Y b\<bar>; dz = \<bar>Z a - Z b\<bar>
      in if dx > dy \<and> dx > dz then dx
         else if dy > dz then dy
         else dz)"

definition DistanceAxial :: "Axial \<Rightarrow> Axial \<Rightarrow> int" where
  "DistanceAxial a b = DistanceCube (ToCube a) (ToCube b)"

text \<open>
  \<open>Ring\<close>: the loop state is the result slice and the cursor \<open>cur\<close>. One side of the
  ring is the inner loop (\<open>k\<close> steps), the outer loop runs the six sides.
  \<open>make([]Axial, 0, 6*k)\<close> panics on a negative capacity.
\<close>

definition ring_side :: "int \<Rightarrow> nat \<Rightarrow> Axial list \<times> Axial \<Rightarrow> Axial list \<times> Axial" where
  "ring_side k side st =
     fold (\<lambda>step (res, cur). (res @ [cur], Add cur (Directions ! side))) [0..<nat k] st"

definition Ring :: "Axial \<Rightarrow> int \<Rightarrow> panic + Axial list" where
  "Ring c k =
     (if k = 0 then Inr [c]
      else if k < 0 then Inl MakeSliceCapOutOfRange
      else Inr (fst (fold (ring_side k) [0..<6] ([], Add c (Mul (Directions ! 4) k)))))"

text \<open>
  \<open>Edge\<close>. \<open>idxs\<close> are the ring indices whose cell passes the outward-neighbour test.
  When their number is not \<open>R\<close> the function falls back to the segment of the ring that
  starts at index \<open>side * R\<close>; otherwise it looks for the smallest gap between
  consecutive indices and reads \<open>R\<close> indices from there.
\<close>

definition edge_idxs :: "Axial \<Rightarrow> int \<Rightarrow> nat \<Rightarrow> Axial list \<Rightarrow> nat list" where
  "edge_idxs c rad side r =
     filter (\<lambda>i. DistanceAxial c (Add (r ! i) (Directions ! side)) = rad + 1) [0..<length r]"

definition edge_fallback :: "int \<Rightarrow> nat \<Rightarrow> Axial list \<Rightarrow> Axial list" where
  "edge_fallback rad side r =
     (let start = (side * nat rad) mod length r
      in map (\<lambda>i. r ! ((start + i) mod length r)) [0..<nat rad])"

definition edge_min_gap :: "nat list \<Rightarrow> nat \<Rightarrow> nat \<times> int" where
  "edge_min_gap idxs L =
     fold (\<lambda>i (startIdx, minGap).
             let j = (i + 1) mod length idxs;
                 gap = (int (idxs ! j) - int (idxs ! i) + int L) mod int L
             in if gap < minGap then (j, gap) else (startIdx, minGap))
          [0..<length idxs] (0, 2 ^ 31 - 1)"

definition Edge :: "Axial \<Rightarrow> int \<Rightarrow> int \<Rightarrow> panic + Axial list" where
  "Edge c rad side =
     (if rad \<le> 0 then Inr [c]
      else case Ring c rad of
        Inl p \<Rightarrow> Inl p
      | Inr r \<Rightarrow>
          if r \<noteq> [] \<and> (side < 0 \<or> 6 \<le> side) then Inl IndexOutOfRange
          else
            let idxs = edge_idxs c rad (nat side) r in
            if int (length idxs) \<noteq> rad then
              (if r = [] then Inl IntegerDivideByZero
               else Inr (edge_fallback rad (nat side) r))
            else
              let startIdx = fst (edge_min_gap idxs (length r))
              in Inr (map (\<lambda>k. r ! (idxs ! ((startIdx + k) mod length idxs))) [0..<nat rad]))"

section \<open>The chunked map (internal/gamemap)\<close>

record Hex =
  WorldPos :: Axial
  Terrain :: string

record HexChunk =
  ChunkPos :: Axial
  Hexes :: "(Axial \<times> Hex) list"
  Generated :: bool
  Radius :: int

definition minInt :: "int \<Rightarrow> int \<Rightarrow> int" where
  "minInt a b = (if a < b then a else b)"

definition maxInt :: "int \<Rightarrow> int \<Rightarrow> int" where
  "maxInt a b = (if a > b then a else b)"

text \<open>The body of the inner loop of \<open>generateHexes\<close>: one cell stored under its local position.\<close>

definition put_hex :: "HexChunk \<Rightarrow> int \<Rightarrow> int \<Rightarrow> (Axial \<times> Hex) list \<Rightarrow> (Axial \<times> Hex) list" where
  "put_hex c q r hs =
     (let localPos = Axial q r;
          worldPos = Axial (Q (ChunkPos c) * Radius c + Q localPos)
                           (R (ChunkPos c) * Radius c + R localPos)
      in AList.update localPos \<lparr>WorldPos = worldPos, Terrain = ''plains''\<rparr> hs)"

definition hex_row :: "HexChunk \<Rightarrow> int \<Rightarrow> (Axial \<times> Hex) list \<Rightarrow> (Axial \<times> Hex) list" where
  "hex_row c q hs =
     (let r1 = maxInt (- Radius c) (- q - Radius c);
          r2 = minInt (Radius c) (- q + Radius c)
      in fold (put_hex c q) [r1..r2] hs)"

definition generateHexes :: "HexChunk \<Rightarrow> HexChunk" where
  "generateHexes c =
     c\<lparr>Hexes := fold (hex_row c) [- Radius c..Radius c] (Hexes c), Generated := True\<rparr>"

definition defaultRadius :: int where
  "defaultRadius = 9"

definition NewHexChunk :: "Axial \<Rightarrow> HexChunk" where
  "NewHexChunk chunkPos =
     generateHexes \<lparr>ChunkPos = chunkPos, Hexes = [], Generated = False, Radius = defaultRadius\<rparr>"

definition GetHex :: "HexChunk \<Rightarrow> Axial \<Rightarrow> Hex option" where
  "GetHex c localPos = map_of (Hexes c) localPos"

definition HexCount :: "HexChunk \<Rightarrow> int" where
  "HexCount c = int (length (Hexes c))"

record GameMap =
  Chunks :: "(Axial \<times> HexChunk) list"
  ChunkRadius :: int

definition chunk_row :: "GameMap \<Rightarrow> int \<Rightarrow> (Axial \<times> HexChunk) list \<Rightarrow> (Axial \<times> HexChunk) list" where
  "chunk_row gm q cs =
     (let r1 = maxInt (- ChunkRadius gm) (- q - ChunkRadius gm);
          r2 = minInt (ChunkRadius gm) (- q + ChunkRadius gm)
      in fold (\<lambda>r. AList.update (Axial q r) (NewHexChunk (Axial q r))) [r1..r2] cs)"

definition generateChunks :: "GameMap \<Rightarrow> error option \<times> GameMap" where
  "generateChunks gm =
     (None, gm\<lparr>Chunks := fold (chunk_row gm) [- ChunkRadius gm..ChunkRadius gm] (Chunks gm)\<rparr>)"

definition New :: "int \<Rightarrow> error + GameMap" where
  "New chunkRadius =
     (case generateChunks \<lparr>Chunks = [], ChunkRadius = chunkRadius\<rparr> of
        (Some err, gm) \<Rightarrow> Inl err
      | (None, gm) \<Rightarrow> Inr gm)"

definition GetChunk :: "GameMap \<Rightarrow> Axial \<Rightarrow> HexChunk option" where
  "GetChunk gm pos = map_of (Chunks gm) pos"

text \<open>\<open>GameMap.GetHex\<close>, the lookup of a world position: a stub in the source.\<close>

definition GameMap_GetHex :: "GameMap \<Rightarrow> Axial \<Rightarrow> error + Hex" where
  "GameMap_GetHex gm worldPos = Inl NotImplemented"

section \<open>Configuration, players and messages (internal/config, pkg/models, internal/network)\<close>

text \<open>The fields of \<open>config.Config\<close> that the embedded functions can reach, flattened.\<close>

record Config =
  JWT_Issuer :: string
  Redis_BlacklistPrefix :: string
  Session_MaxPlayers :: int
  Session_InitialMapRadius :: int
  Chat_MaxMessageLength :: int
  Chat_RateLimit :: int

text \<open>\<open>models.Player\<close>. A \<open>time.Time\<close> is its reading in seconds, \<open>0\<close> the zero time.\<close>

record Player =
  ID :: string
  Username :: string
  Email :: string
  UserType :: string
  Permissions :: int
  Activated :: int
  AuthMethod :: string
  Connected :: bool
  ConnectedAt :: int
  LastSeen :: int
  SessionID :: string
  EmpireID :: string

record SessionStatus =
  State :: string
  PlayerCount :: int
  MaxPlayers :: int
  ServerTick :: int
  Uptime :: int

definition MsgTypeWelcome :: string where "MsgTypeWelcome = ''welcome''"
definition MsgTypePlayerJoined :: string where "MsgTypePlayerJoined = ''player_joined''"
definition MsgTypePlayerLeft :: string where "MsgTypePlayerLeft = ''player_left''"
definition MsgTypeChatBroadcast :: string where "MsgTypeChatBroadcast = ''chat''"
definition MsgTypeError :: string where "MsgTypeError = ''error''"
definition MsgTypePong :: string where "MsgTypePong = ''pong''"

text \<open>
  The payloads of protocol.go, fields in the order of the struct:
  \<open>WelcomePayload player_id username session_id session_status\<close>,
  \<open>PlayerJoinedPayload player_id username email\<close>,
  \<open>PlayerLeftPayload player_id username\<close>,
  \<open>ChatBroadcastPayload player_id username message timestamp\<close>,
  \<open>ErrorPayload code message\<close>, and the map \<open>{"timestamp": t}\<close> of a pong.
\<close>

datatype Payload =
    WelcomePayload string string string SessionStatus
  | PlayerJoinedPayload string string string
  | PlayerLeftPayload string string
  | ChatBroadcastPayload string string string int
  | ErrorPayload string string
  | PongPayload int

record ServerMessage =
  Type :: string
  Payload :: Payload

record ChatPayload =
  Message :: string

text \<open>
  \<open>json.Marshal\<close> does not fail on a \<open>ServerMessage\<close> with one of the payloads above
  (strings and integers only). The encoded bytes are represented by the message they
  encode.
\<close>

definition json_Marshal :: "ServerMessage \<Rightarrow> error + ServerMessage" where
  "json_Marshal msg = Inr msg"

section \<open>The credential validator (internal/server/auth.go)\<close>

datatype PublicKey = ECDSAPublicKey int int

datatype SigningMethod = SigningMethodECDSA | SigningMethodOther string

text \<open>
  \<open>Claims\<close>: the custom claims and, of the embedded \<open>jwt.RegisteredClaims\<close>, the two
  fields \<open>ValidateToken\<close> reads and \<open>NotBefore\<close>, which the library validates
  (\<open>ExpiresAt\<close> and \<open>NotBefore\<close> are pointers, \<open>None\<close> when nil).
\<close>

record Claims =
  UserID :: int
  claim_Email :: string
  claim_Username :: string
  claim_UserType :: string
  claim_AuthMethod :: string
  claim_Permissions :: int
  claim_Activated :: int
  Issuer :: string
  ExpiresAt :: "int option"
  NotBefore :: "int option"

record Token =
  Method :: SigningMethod
  TokenClaims :: Claims
  Valid :: bool

record JWTValidator =
  jwt_config :: Config
  publicKey :: PublicKey

text \<open>
  What is outside the repository is a parameter: \<open>jwt.ParseWithClaims\<close> of the JWT
  library (it decodes the token string, asks the key function for the key, verifies the
  signature with it and returns the token or an error), \<open>Exists\<close> of the Redis client
  (the number of keys found, or a transport error) and \<open>time.Now()\<close>. The algorithm of
  \<open>jwt.ParseWithClaims\<close> in the version the repository builds with is given below, as
  \<open>jwt_v5_ParseWithClaims\<close>.
\<close>

record Env =
  jwt_ParseWithClaims :: "string \<Rightarrow> (Token \<Rightarrow> error + PublicKey) \<Rightarrow> error + Token"
  redis_Exists :: "string \<Rightarrow> error + int"
  time_Now :: int

text \<open>The key function that \<open>ValidateToken\<close> hands to the library (auth.go, lines 125-134).\<close>

definition keyfunc :: "JWTValidator \<Rightarrow> Token \<Rightarrow> error + PublicKey" where
  "keyfunc v token =
     (case Method token of
        SigningMethodECDSA \<Rightarrow> Inr (publicKey v)
      | SigningMethodOther alg \<Rightarrow> Inl UnexpectedSigningMethod)"

text \<open>
  The JWT library (github.com/golang-jwt/jwt/v5, v5.3.0 in go.mod) is not part of the
  repository. \<open>jwt_v5_ParseWithClaims\<close> is \<open>Parser.ParseWithClaims\<close> with the default
  options, as parser.go and validator.go of the package have it: decode the token
  string (\<open>ParseUnverified\<close> and the decoding of the signature segment, whose error is
  returned as it is), ask the key function for the key, verify the signature with the
  method named in the token's header (\<open>token.Method.Verify\<close>), validate the registered
  claims (\<open>exp\<close>: the clock must be before it; \<open>nbf\<close>: the clock must not be before it;
  both only when present; no leeway; \<open>iat\<close>, \<open>aud\<close>, \<open>iss\<close> and \<open>sub\<close> are not validated
  without a parser option), and only then mark the token valid. Decoding and the
  signature check are parameters (\<open>JWTLib\<close>).
\<close>

record JWTLib =
  lib_decode :: "string \<Rightarrow> error + Token"
  lib_verify :: "SigningMethod \<Rightarrow> string \<Rightarrow> PublicKey \<Rightarrow> bool"

definition validate_registered :: "Claims \<Rightarrow> int \<Rightarrow> error list" where
  "validate_registered claims now =
     (case ExpiresAt claims of
        None \<Rightarrow> []
      | Some e \<Rightarrow> if now < e then [] else [ErrTokenExpired]) @
     (case NotBefore claims of
        None \<Rightarrow> []
      | Some n \<Rightarrow> if now < n then [ErrTokenNotValidYet] else [])"

definition jwt_v5_ParseWithClaims ::
    "JWTLib \<Rightarrow> int \<Rightarrow> string \<Rightarrow> (Token \<Rightarrow> error + PublicKey) \<Rightarrow> error + Token" where
  "jwt_v5_ParseWithClaims lib now tokenString keyFunc =
     (case lib_decode lib tokenString of
        Inl err \<Rightarrow> Inl err
      | Inr token \<Rightarrow>
          (case keyFunc token of
             Inl err \<Rightarrow> Inl (ErrTokenUnverifiable err)
           | Inr key \<Rightarrow>
               if \<not> lib_verify lib (Method token) tokenString key
                 then Inl ErrTokenSignatureInvalid
               else
                 (case validate_registered (TokenClaims token) now of
                    [] \<Rightarrow> Inr (token\<lparr>Valid := True\<rparr>)
                  | err # errs \<Rightarrow> Inl (ErrTokenInvalidClaims (err # errs)))))"

text \<open>The environment of a call that runs on this library, with one reading of the clock.\<close>

definition with_library :: "JWTLib \<Rightarrow> (string \<Rightarrow> error + int) \<Rightarrow> int \<Rightarrow> Env" where
  "with_library lib redis now =
     \<lparr>jwt_ParseWithClaims = jwt_v5_ParseWithClaims lib now, redis_Exists = redis,
      time_Now = now\<rparr>"

text \<open>\<open>strconv.FormatInt(i, 10)\<close>.\<close>

fun digits10 :: "nat \<Rightarrow> string" where
  "digits10 n =
     (if n < 10 then [''0123456789'' ! n]
      else digits10 (n div 10) @ [''0123456789'' ! (n mod 10)])"

declare digits10.simps [simp del]

definition FormatInt :: "int \<Rightarrow> string" where
  "FormatInt i = (if i < 0 then CHR ''-'' # digits10 (nat (- i)) else digits10 (nat i))"

definition player_of_claims :: "Claims \<Rightarrow> Player" where
  "player_of_claims claims =
     (let userIDStr = FormatInt (UserID claims)
      in \<lparr>ID = userIDStr,
          Username = claim_Username claims,
          Email = claim_Email claims,
          UserType = claim_UserType claims,
          Permissions = claim_Permissions claims,
          Activated = claim_Activated claims,
          AuthMethod = claim_AuthMethod claims,
          Connected = False,
          ConnectedAt = 0,
          LastSeen = 0,
          SessionID = [],
          EmpireID = userIDStr\<rparr>)"

text \<open>
  \<open>ValidateToken\<close> returns the lines it logs and its result. The checks stand in the
  order of the source.
\<close>

definition ValidateToken :: "JWTValidator \<Rightarrow> Env \<Rightarrow> string \<Rightarrow> string list \<times> (error + Player)" where
  "ValidateToken v env tokenString =
     (case jwt_ParseWithClaims env tokenString (keyfunc v) of
        Inl err \<Rightarrow> ([], Inl (ParseFailed err))
      | Inr token \<Rightarrow>
          let claims = TokenClaims token in
          if \<not> Valid token then ([], Inl InvalidTokenClaims)
          else if Issuer claims \<noteq> JWT_Issuer (jwt_config v)
            then ([], Inl (InvalidIssuer (JWT_Issuer (jwt_config v)) (Issuer claims)))
          else if (case ExpiresAt claims of None \<Rightarrow> False | Some e \<Rightarrow> e < time_Now env)
            then ([], Inl TokenExpired)
          else if claim_Activated claims = 0 then ([], Inl UserNotActivated)
          else if claim_Activated claims = - 1 then ([], Inl UserBanned)
          else
            let userIDStr = FormatInt (UserID claims);
                blacklistKey = Redis_BlacklistPrefix (jwt_config v) @ userIDStr
            in (case redis_Exists env blacklistKey of
                  Inl err \<Rightarrow>
                    ([''Warning: Failed to check blacklist''], Inr (player_of_claims claims))
                | Inr isBlacklisted \<Rightarrow>
                    if isBlacklisted > 0 then ([], Inl TokenBlacklisted)
                    else ([], Inr (player_of_claims claims))))"

text \<open>
  The token of a request: the three places \<open>extractTokenFromHeader\<close> looks at are the
  fields of \<open>Request\<close> (an absent header or query parameter is the empty string).
\<close>

record Request =
  RemoteAddr :: string
  SecWebSocketProtocol :: string
  Authorization :: string
  QueryToken :: string

fun split_at :: "char \<Rightarrow> string \<Rightarrow> string \<Rightarrow> string list" where
  "split_at c cur [] = [cur]"
| "split_at c cur (x # xs) =
     (if x = c then cur # split_at c [] xs else split_at c (cur @ [x]) xs)"

text \<open>\<open>splitString(s, sep)\<close> splits at the byte \<open>sep[0]\<close>; an empty \<open>sep\<close> panics.\<close>

definition splitString :: "string \<Rightarrow> string \<Rightarrow> panic + string list" where
  "splitString s sep =
     (case sep of
        [] \<Rightarrow> (if s = [] then Inr [s] else Inl IndexOutOfRange)
      | c # cs \<Rightarrow> Inr (split_at c [] s))"

definition is_blank :: "char \<Rightarrow> bool" where
  "is_blank c = (c = CHR '' '' \<or> c = CHR 0x09)"

definition trimSpace :: "string \<Rightarrow> string" where
  "trimSpace s = rev (dropWhile is_blank (rev (dropWhile is_blank s)))"

definition splitAndTrim :: "string \<Rightarrow> string \<Rightarrow> panic + string list" where
  "splitAndTrim s sep =
     (case splitString s sep of
        Inl p \<Rightarrow> Inl p
      | Inr parts \<Rightarrow> Inr (filter (\<lambda>trimmed. trimmed \<noteq> []) (map trimSpace parts)))"

definition parseProtocols :: "string \<Rightarrow> panic + string list" where
  "parseProtocols protocols = splitAndTrim protocols '',''"

definition extractTokenFromHeader :: "Request \<Rightarrow> panic + string" where
  "extractTokenFromHeader r =
     (let fromAuth =
            (let auth = Authorization r in
             if auth \<noteq> [] \<and> length auth > 7 \<and> take 7 auth = ''Bearer '' then drop 7 auth
             else QueryToken r)
      in if SecWebSocketProtocol r \<noteq> [] then
           (case parseProtocols (SecWebSocketProtocol r) of
              Inl p \<Rightarrow> Inl p
            | Inr parts \<Rightarrow>
                if length parts = 2 \<and> parts ! 0 = ''access_token'' then Inr (parts ! 1)
                else Inr fromAuth)
         else Inr fromAuth)"

section \<open>Connections, the session and the server (internal/server)\<close>

text \<open>
  A \<open>*Connection\<close> is an address (a number) into the store \<open>conns\<close> of the server
  state. The buffered channel \<open>send\<close> is the list of the messages it holds (oldest
  first), its capacity and whether it was closed. Only the two log lines that a claim
  speaks of are kept (the drop warning here, the blacklist warning above).
\<close>

record Connection =
  player :: "Player option"
  send :: "ServerMessage list"
  send_cap :: nat
  send_closed :: bool
  authenticated :: bool

definition NewConnection :: Connection where
  "NewConnection =
     \<lparr>player = None, send = [], send_cap = 256, send_closed = False, authenticated = False\<rparr>"

record Session =
  sess_ID :: string
  CreatedAt :: int
  players :: "(string \<times> Player) list"
  connections :: "(string \<times> nat) list"
  gameMap :: GameMap
  status :: SessionStatus
  config :: Config

definition NewSession :: "string \<Rightarrow> Config \<Rightarrow> int \<Rightarrow> error + Session" where
  "NewSession ident cfg now =
     (case New (Session_InitialMapRadius cfg) of
        Inl err \<Rightarrow> Inl err
      | Inr gm \<Rightarrow>
          Inr \<lparr>sess_ID = ident, CreatedAt = now, players = [], connections = [],
               gameMap = gm,
               status = \<lparr>State = ''waiting'', PlayerCount = 0,
                         MaxPlayers = Session_MaxPlayers cfg, ServerTick = 0, Uptime = 0\<rparr>,
               config = cfg\<rparr>)"

definition AddPlayer :: "Session \<Rightarrow> Player \<Rightarrow> nat \<Rightarrow> error option \<times> Session" where
  "AddPlayer s p conn =
     (let s1 = s\<lparr>players := AList.update (ID p) p (players s)\<rparr>;
          s2 = s1\<lparr>connections := AList.update (ID p) conn (connections s1)\<rparr>;
          s3 = s2\<lparr>status := (status s2)\<lparr>PlayerCount := int (length (players s2))\<rparr>\<rparr>
      in (None, s3))"

definition RemovePlayer :: "Session \<Rightarrow> string \<Rightarrow> Session" where
  "RemovePlayer s playerID =
     (case map_of (players s) playerID of
        Some p \<Rightarrow>
          let s1 = s\<lparr>players := AList.delete playerID (players s)\<rparr>;
              s2 = s1\<lparr>connections := AList.delete playerID (connections s1)\<rparr>
          in s2\<lparr>status := (status s2)\<lparr>PlayerCount := int (length (players s2))\<rparr>\<rparr>
      | None \<Rightarrow> s)"

text \<open>
  The sessions the code can produce: \<open>NewSession\<close> makes one, and only \<open>AddPlayer\<close> and
  \<open>RemovePlayer\<close> write to its roster and status afterwards.
\<close>

inductive reachable :: "Session \<Rightarrow> bool" where
  created: "NewSession ident cfg now = Inr s \<Longrightarrow> reachable s"
| added: "reachable s \<Longrightarrow> reachable (snd (AddPlayer s p conn))"
| removed: "reachable s \<Longrightarrow> reachable (RemovePlayer s playerID)"

record Server =
  srv_config :: Config
  session :: Session
  jwtValidator :: JWTValidator
  srv_connections :: "nat list"
  conns :: "nat \<Rightarrow> Connection"
  next_conn :: nat
  logs :: "string list"

text \<open>
  \<open>SendMessage\<close>: the \<open>select\<close> with a \<open>default\<close> branch sends when the buffer has room
  and drops otherwise; a send on a closed channel panics.
\<close>

definition SendMessage :: "nat \<Rightarrow> ServerMessage \<Rightarrow> Server \<Rightarrow> panic + Server" where
  "SendMessage c msg srv =
     (case json_Marshal msg of
        Inl err \<Rightarrow> Inr (srv\<lparr>logs := logs srv @ [''Failed to marshal message'']\<rparr>)
      | Inr data \<Rightarrow>
          let conn = conns srv c in
          if send_closed conn then Inl SendOnClosedChannel
          else if length (send conn) < send_cap conn
            then Inr (srv\<lparr>conns := (conns srv)(c := conn\<lparr>send := send conn @ [data]\<rparr>)\<rparr>)
          else Inr (srv\<lparr>logs := logs srv @ [''Send buffer full, dropping message'']\<rparr>))"

definition SendError :: "nat \<Rightarrow> string \<Rightarrow> string \<Rightarrow> Server \<Rightarrow> panic + Server" where
  "SendError c code message srv =
     SendMessage c \<lparr>Type = MsgTypeError, Payload = ErrorPayload code message\<rparr> srv"

text \<open>
  The two broadcasts range over the connections of the roster; Go leaves the order of a
  map range open, the model takes the order of the association list.
\<close>

fun send_each :: "nat list \<Rightarrow> ServerMessage \<Rightarrow> Server \<Rightarrow> panic + Server" where
  "send_each [] msg srv = Inr srv"
| "send_each (c # cs) msg srv =
     (case SendMessage c msg srv of
        Inl p \<Rightarrow> Inl p
      | Inr srv' \<Rightarrow> send_each cs msg srv')"

definition BroadcastMessage :: "ServerMessage \<Rightarrow> Server \<Rightarrow> panic + Server" where
  "BroadcastMessage msg srv = send_each (map snd (connections (session srv))) msg srv"

definition BroadcastExcept :: "nat \<Rightarrow> ServerMessage \<Rightarrow> Server \<Rightarrow> panic + Server" where
  "BroadcastExcept exclude msg srv =
     send_each (filter (\<lambda>conn. conn \<noteq> exclude) (map snd (connections (session srv)))) msg srv"

text \<open>
  \<open>handleJoin\<close>. Its first statement logs \<open>c.player.Username\<close>, a nil dereference when
  the connection has no player.
\<close>

definition handleJoin :: "nat \<Rightarrow> int \<Rightarrow> Server \<Rightarrow> panic + Server" where
  "handleJoin c now srv =
     (case player (conns srv c) of
        None \<Rightarrow> Inl NilPointerDereference
      | Some p0 \<Rightarrow>
          if \<not> authenticated (conns srv c) then
            SendError c ''not_authenticated'' ''Connection not authenticated'' srv
          else
            let p = p0\<lparr>Connected := True, ConnectedAt := now, SessionID := sess_ID (session srv)\<rparr>;
                srv1 = srv\<lparr>conns := (conns srv)(c := (conns srv c)\<lparr>player := Some p\<rparr>)\<rparr>
            in (case AddPlayer (session srv1) p c of
                  (Some err, s') \<Rightarrow>
                    SendError c ''join_failed'' ''Failed to join session'' (srv1\<lparr>session := s'\<rparr>)
                | (None, s') \<Rightarrow>
                    let srv2 = srv1\<lparr>session := s'\<rparr>;
                        welcome = \<lparr>Type = MsgTypeWelcome,
                                   Payload = WelcomePayload (ID p) (Username p) (sess_ID s')
                                     \<lparr>State = State (status s'),
                                      PlayerCount = PlayerCount (status s'),
                                      MaxPlayers = MaxPlayers (status s'),
                                      ServerTick = ServerTick (status s'),
                                      Uptime = Uptime (status s')\<rparr>\<rparr>
                    in (case SendMessage c welcome srv2 of
                          Inl pn \<Rightarrow> Inl pn
                        | Inr srv3 \<Rightarrow>
                            BroadcastExcept c
                              \<lparr>Type = MsgTypePlayerJoined,
                               Payload = PlayerJoinedPayload (ID p) (Username p) (Email p)\<rparr>
                              srv3)))"

text \<open>
  \<open>handleChat\<close>. The raw payload is given by what \<open>json.Unmarshal\<close> makes of it:
  \<open>None\<close> when it returns an error. After the two guards the source has three TODO
  notes (rate limiting, length validation, profanity filter) and no code for them.
\<close>

definition handleChat :: "nat \<Rightarrow> ChatPayload option \<Rightarrow> int \<Rightarrow> Server \<Rightarrow> panic + Server" where
  "handleChat c payload now srv =
     (if \<not> authenticated (conns srv c) \<or> player (conns srv c) = None then
        SendError c ''not_authenticated'' ''Must be authenticated to chat'' srv
      else
        (case payload of
           None \<Rightarrow> SendError c ''invalid_chat'' ''Invalid chat message'' srv
         | Some chatMsg \<Rightarrow>
             (case player (conns srv c) of
                None \<Rightarrow> Inl NilPointerDereference
              | Some p \<Rightarrow>
                  BroadcastMessage
                    \<lparr>Type = MsgTypeChatBroadcast,
                     Payload = ChatBroadcastPayload (ID p) (Username p) (Message chatMsg) now\<rparr>
                    srv)))"

text \<open>
  \<open>handleWebSocket\<close> up to the registration of the connection (the read loop that follows
  is \<open>handleJoin\<close>, \<open>handleChat\<close> and the other handlers, message by message).
  \<open>upgrade_ok\<close> is the outcome of the handshake of the WebSocket library. The body of a
  401 answer is \<open>Missing authentication token\<close> or \<open>Invalid token: \<close> followed by the
  error of the validator.
\<close>

datatype Body =
    MissingAuthenticationToken
  | InvalidToken error

datatype Response =
    Unauthorized Body
  | HandlerPanic panic
  | UpgradeFailed
  | Established nat

definition handleWebSocket :: "Server \<Rightarrow> Env \<Rightarrow> Request \<Rightarrow> bool \<Rightarrow> Response \<times> Server" where
  "handleWebSocket s env r upgrade_ok =
     (case extractTokenFromHeader r of
        Inl p \<Rightarrow> (HandlerPanic p, s)
      | Inr tokenString \<Rightarrow>
          if tokenString = [] then (Unauthorized MissingAuthenticationToken, s)
          else
            (case ValidateToken (jwtValidator s) env tokenString of
               (lines, Inl err) \<Rightarrow>
                 (Unauthorized (InvalidToken err), s\<lparr>logs := logs s @ lines\<rparr>)
             | (lines, Inr p) \<Rightarrow>
                 let s1 = s\<lparr>logs := logs s @ lines\<rparr> in
                 if \<not> upgrade_ok then (UpgradeFailed, s1)
                 else
                   let c = next_conn s1;
                       conn = NewConnection\<lparr>player := Some p, authenticated := True\<rparr>
                   in (Established c,
                       s1\<lparr>conns := (conns s1)(c := conn),
                          next_conn := Suc c,
                          srv_connections := srv_connections s1 @ [c]\<rparr>)))"

section \<open>Vocabulary of the properties\<close>

text \<open>
  The local positions \<open>generateHexes\<close> walks through, in the order of its two loops
  (\<open>generateChunks\<close> walks through the chunk positions in the same way), and the cell it
  stores at a local position.
\<close>

definition disc_cells :: "int \<Rightarrow> Axial list" where
  "disc_cells rad =
     concat (map (\<lambda>q. map (Axial q) [maxInt (- rad) (- q - rad)..minInt rad (- q + rad)])
                 [- rad..rad])"

definition hex_at :: "HexChunk \<Rightarrow> Axial \<Rightarrow> Hex" where
  "hex_at c l =
     \<lparr>WorldPos = Axial (Q (ChunkPos c) * Radius c + Q l) (R (ChunkPos c) * Radius c + R l),
      Terrain = ''plains''\<rparr>"

text \<open>
  The cells of a ring: side \<open>s\<close> starts at a corner of the hexagon and takes \<open>k\<close> steps
  in direction \<open>s\<close>; \<open>ring_cell c k s i\<close> is its cell number \<open>i\<close>.
\<close>

definition walk :: "Axial \<Rightarrow> Axial \<Rightarrow> nat \<Rightarrow> Axial list" where
  "walk start d n = map (\<lambda>i. Add start (Mul d (int i))) [0..<n]"

definition corner :: "int \<Rightarrow> nat \<Rightarrow> Axial" where
  "corner k side =
     [Axial (- k) k, Axial 0 k, Axial k 0, Axial k (- k), Axial 0 (- k), Axial (- k) 0] ! side"

definition ring_cell :: "Axial \<Rightarrow> int \<Rightarrow> nat \<Rightarrow> nat \<Rightarrow> Axial" where
  "ring_cell c k s i = Add (Add c (corner k s)) (Mul (Directions ! s) (int i))"

definition ring_cells :: "Axial \<Rightarrow> int \<Rightarrow> Axial list" where
  "ring_cells c k = concat (map (\<lambda>s. map (ring_cell c k s) [0..<nat k]) [0, 1, 2, 3, 4, 5])"

text \<open>
  What holds of every session the code can produce: the two maps of the roster have
  distinct and equal keys, the player count is the size of the roster, and the other
  status fields are as \<open>NewSession\<close> set them.
\<close>

definition session_inv :: "Session \<Rightarrow> bool" where
  "session_inv s \<longleftrightarrow>
     distinct (map fst (players s)) \<and> distinct (map fst (connections s)) \<and>
     fst ` set (players s) = fst ` set (connections s) \<and>
     PlayerCount (status s) = int (length (players s)) \<and>
     State (status s) = ''waiting'' \<and> ServerTick (status s) = 0 \<and> Uptime (status s) = 0 \<and>
     MaxPlayers (status s) = Session_MaxPlayers (config s)"

text \<open>
  A message offered to the outbound queue of a connection whose channel is open: it is
  appended when the queue has room and dropped otherwise.
\<close>

definition offer :: "ServerMessage \<Rightarrow> Connection \<Rightarrow> Connection" where
  "offer msg conn =
     (if length (send conn) < send_cap conn then conn\<lparr>send := send conn @ [msg]\<rparr> else conn)"

text \<open>The player as \<open>handleJoin\<close> stores it, and the two messages of a join.\<close>

definition joined_player :: "Player \<Rightarrow> int \<Rightarrow> Session \<Rightarrow> Player" where
  "joined_player p0 now s = p0\<lparr>Connected := True, ConnectedAt := now, SessionID := sess_ID s\<rparr>"

definition welcome_msg :: "Player \<Rightarrow> Session \<Rightarrow> ServerMessage" where
  "welcome_msg p s =
     \<lparr>Type = ''welcome'',
      Payload = WelcomePayload (ID p) (Username p) (sess_ID s)
                  \<lparr>State = ''waiting'', PlayerCount = PlayerCount (status s),
                   MaxPlayers = MaxPlayers (status s), ServerTick = 0, Uptime = 0\<rparr>\<rparr>"

definition player_joined_msg :: "Player \<Rightarrow> ServerMessage" where
  "player_joined_msg p =
     \<lparr>Type = ''player_joined'', Payload = PlayerJoinedPayload (ID p) (Username p) (Email p)\<rparr>"

text \<open>The key under which the revocation store is asked about the subject of a token.\<close>

definition blacklistKey :: "JWTValidator \<Rightarrow> Claims \<Rightarrow> string" where
  "blacklistKey v claims = Redis_BlacklistPrefix (jwt_config v) @ FormatInt (UserID claims)"

text \<open>
  The signature of a token string verifies with the cached ECDSA key: the string decodes
  to a token whose header names an ECDSA method, and the signature check of that method
  accepts the string for the key the validator holds.
\<close>

definition signature_verifies :: "JWTValidator \<Rightarrow> JWTLib \<Rightarrow> string \<Rightarrow> bool" where
  "signature_verifies v lib tokenString =
     (case lib_decode lib tokenString of
        Inl err \<Rightarrow> False
      | Inr token \<Rightarrow>
          Method token = SigningMethodECDSA \<and>
          lib_verify lib SigningMethodECDSA tokenString (publicKey v))"

text \<open>
  The revocation store authoritatively reports the subject of the claims present: the
  lookup succeeds and counts at least one key.
\<close>

definition reported_revoked :: "JWTValidator \<Rightarrow> (string \<Rightarrow> error + int) \<Rightarrow> Claims \<Rightarrow> bool" where
  "reported_revoked v redis claims =
     (case redis (blacklistKey v claims) of Inl err \<Rightarrow> False | Inr n \<Rightarrow> 0 < n)"

text \<open>
  \<open>claimed_reasons\<close>: the reasons for refusal that the claim lists (signature, issuer,
  expiration before the clock, activation 0 or -1, revocation). \<open>refusal_reasons\<close>: the
  same with the two conditions on the time stamps as the code and the library test them
  (the expiration time is not after the clock; the not-before time is after the clock).
\<close>

definition claimed_reasons ::
    "JWTValidator \<Rightarrow> JWTLib \<Rightarrow> (string \<Rightarrow> error + int) \<Rightarrow> int \<Rightarrow> string \<Rightarrow> bool" where
  "claimed_reasons v lib redis now tokenString =
     (\<not> signature_verifies v lib tokenString \<or>
      (case lib_decode lib tokenString of
         Inl err \<Rightarrow> False
       | Inr token \<Rightarrow>
           Issuer (TokenClaims token) \<noteq> JWT_Issuer (jwt_config v) \<or>
           (case ExpiresAt (TokenClaims token) of None \<Rightarrow> False | Some e \<Rightarrow> e < now) \<or>
           claim_Activated (TokenClaims token) = 0 \<or>
           claim_Activated (TokenClaims token) = - 1 \<or>
           reported_revoked v redis (TokenClaims token)))"

definition refusal_reasons ::
    "JWTValidator \<Rightarrow> JWTLib \<Rightarrow> (string \<Rightarrow> error + int) \<Rightarrow> int \<Rightarrow> string \<Rightarrow> bool" where
  "refusal_reasons v lib redis now tokenString =
     (\<not> signature_verifies v lib tokenString \<or>
      (case lib_decode lib tokenString of
         Inl err \<Rightarrow> False
       | Inr token \<Rightarrow>
           Issuer (TokenClaims token) \<noteq> JWT_Issuer (jwt_config v) \<or>
           (case ExpiresAt (TokenClaims token) of None \<Rightarrow> False | Some e \<Rightarrow> e \<le> now) \<or>
           (case NotBefore (TokenClaims token) of None \<Rightarrow> False | Some n \<Rightarrow> now < n) \<or>
           claim_Activated (TokenClaims token) = 0 \<or>
           claim_Activated (TokenClaims token) = - 1 \<or>
           reported_revoked v redis (TokenClaims token)))"

section \<open>Concrete inputs\<close>

text \<open>The defaults of \<open>config.Load\<close>, and the values the examples below run on.\<close>

definition cfg_default :: Config where
  "cfg_default =
     \<lparr>JWT_Issuer = ''login.gravitas-games.com'', Redis_BlacklistPrefix = ''blacklist:'',
      Session_MaxPlayers = 100, Session_InitialMapRadius = 5,
      Chat_MaxMessageLength = 500, Chat_RateLimit = 10\<rparr>"

definition mk_player :: "string \<Rightarrow> string \<Rightarrow> Player" where
  "mk_player ident name =
     \<lparr>ID = ident, Username = name, Email = name @ ''@example.com'', UserType = ''user'',
      Permissions = 0, Activated = 1697123456789000000, AuthMethod = ''password'',
      Connected = False, ConnectedAt = 0, LastSeen = 0, SessionID = [], EmpireID = ident\<rparr>"

definition authed :: "Player \<Rightarrow> Connection" where
  "authed p = NewConnection\<lparr>player := Some p, authenticated := True\<rparr>"

definition test_server :: "Session \<Rightarrow> (nat \<Rightarrow> Connection) \<Rightarrow> Server" where
  "test_server s cs =
     \<lparr>srv_config = cfg_default, session = s,
      jwtValidator = \<lparr>jwt_config = cfg_default, publicKey = ECDSAPublicKey 1 2\<rparr>,
      srv_connections = [], conns = cs, next_conn = 4, logs = []\<rparr>"

definition three_joined :: Server where
  "three_joined =
     test_server
       \<lparr>sess_ID = ''main'', CreatedAt = 0,
        players = [(''1'', mk_player ''1'' ''ann''), (''2'', mk_player ''2'' ''bob''),
                   (''3'', mk_player ''3'' ''cat'')],
        connections = [(''1'', 1), (''2'', 2), (''3'', 3)],
        gameMap = \<lparr>Chunks = [], ChunkRadius = 0\<rparr>,
        status = \<lparr>State = ''waiting'', PlayerCount = 3, MaxPlayers = 100,
                  ServerTick = 0, Uptime = 0\<rparr>,
        config = cfg_default\<rparr>
       ((\<lambda>c. NewConnection)
          (1 := authed (mk_player ''1'' ''ann''), 2 := authed (mk_player ''2'' ''bob''),
           3 := authed (mk_player ''3'' ''cat'')))"

definition chat_from_bob :: "int \<Rightarrow> ServerMessage" where
  "chat_from_bob t = \<lparr>Type = ''chat'', Payload = ChatBroadcastPayload ''2'' ''bob'' ''hi'' t\<rparr>"

text \<open>The read loop handing one chat message per time stamp of the list to \<open>handleChat\<close>.\<close>

fun chat_burst :: "nat \<Rightarrow> int list \<Rightarrow> Server \<Rightarrow> panic + Server" where
  "chat_burst c [] srv = Inr srv"
| "chat_burst c (t # ts) srv =
     (case handleChat c (Some \<lparr>Message = ''hi''\<rparr>) t srv of
        Inl p \<Rightarrow> Inl p
      | Inr srv' \<Rightarrow> chat_burst c ts srv')"

definition full_session :: Session where
  "full_session =
     \<lparr>sess_ID = ''main'', CreatedAt = 0,
      players = [(''123'', mk_player ''123'' ''alice'')], connections = [(''123'', 1)],
      gameMap = \<lparr>Chunks = [], ChunkRadius = 0\<rparr>,
      status = \<lparr>State = ''waiting'', PlayerCount = 1, MaxPlayers = 1, ServerTick = 0, Uptime = 0\<rparr>,
      config = cfg_default\<lparr>Session_MaxPlayers := 1\<rparr>\<rparr>"

definition full_queue :: Server where
  "full_queue =
     test_server
       \<lparr>sess_ID = ''main'', CreatedAt = 0,
        players = [(''1'', mk_player ''1'' ''ann'')], connections = [(''1'', 1)],
        gameMap = \<lparr>Chunks = [], ChunkRadius = 0\<rparr>,
        status = \<lparr>State = ''waiting'', PlayerCount = 1, MaxPlayers = 100,
                  ServerTick = 0, Uptime = 0\<rparr>,
        config = cfg_default\<rparr>
       (\<lambda>c. (authed (mk_player ''1'' ''ann''))\<lparr>send := replicate 256 (chat_from_bob 0)\<rparr>)"

definition two_conns :: "nat \<Rightarrow> Connection" where
  "two_conns =
     (\<lambda>c. NewConnection)
       (1 := authed (mk_player ''123'' ''alice''), 2 := authed (mk_player ''456'' ''bob''))"

definition good_claims :: Claims where
  "good_claims =
     \<lparr>UserID = 123, claim_Email = ''alice@example.com'', claim_Username = ''alice'',
      claim_UserType = ''user'', claim_AuthMethod = ''password'', claim_Permissions = 0,
      claim_Activated = 1697123456789000000, Issuer = ''login.gravitas-games.com'',
      ExpiresAt = Some 1697127000, NotBefore = None\<rparr>"

text \<open>
  A stand-in for the JWT library: it knows one token string, signed for the key
  \<open>ECDSAPublicKey 1 2\<close>, and takes every other string for malformed.
\<close>

definition test_lib :: "string \<Rightarrow> (Token \<Rightarrow> error + PublicKey) \<Rightarrow> error + Token" where
  "test_lib tokenString kf =
     (let token = \<lparr>Method = SigningMethodECDSA, TokenClaims = good_claims, Valid = False\<rparr>
      in if tokenString = ''good.token'' then
           (case kf token of
              Inl e \<Rightarrow> Inl e
            | Inr k \<Rightarrow>
                if k = ECDSAPublicKey 1 2 then Inr (token\<lparr>Valid := True\<rparr>)
                else Inl (LibraryError ''signature is invalid''))
         else Inl (LibraryError ''token is malformed''))"

text \<open>
  A second stand-in, for the decoding and the signature check on which
  \<open>jwt_v5_ParseWithClaims\<close> runs. It knows four token strings with the claims above:
  \<open>good.token\<close>, \<open>early.token\<close> (not valid before second 1697123600) and \<open>ending.token\<close>
  (expiring at second 1697123500) carry an ECDSA signature made for the key
  \<open>ECDSAPublicKey 1 2\<close>; \<open>hs256.token\<close> names the method HS256 in its header and carries a
  signature that this method accepts for every key.
\<close>

definition test_jwt :: JWTLib where
  "test_jwt =
     \<lparr>lib_decode =
        (\<lambda>t. if t = ''good.token'' then
               Inr \<lparr>Method = SigningMethodECDSA, TokenClaims = good_claims, Valid = False\<rparr>
             else if t = ''early.token'' then
               Inr \<lparr>Method = SigningMethodECDSA,
                    TokenClaims = good_claims\<lparr>NotBefore := Some 1697123600\<rparr>, Valid = False\<rparr>
             else if t = ''ending.token'' then
               Inr \<lparr>Method = SigningMethodECDSA,
                    TokenClaims = good_claims\<lparr>ExpiresAt := Some 1697123500\<rparr>, Valid = False\<rparr>
             else if t = ''hs256.token'' then
               Inr \<lparr>Method = SigningMethodOther ''HS256'', TokenClaims = good_claims,
                    Valid = False\<rparr>
             else Inl ErrTokenMalformed),
      lib_verify =
        (\<lambda>m t k. if m = SigningMethodECDSA
                  then k = ECDSAPublicKey 1 2 \<and>
                       (t = ''good.token'' \<or> t = ''early.token'' \<or> t = ''ending.token'')
                  else t = ''hs256.token'')\<rparr>"

text \<open>A revocation store that holds no key.\<close>

definition no_revocations :: "string \<Rightarrow> error + int" where
  "no_revocations k = Inr 0"

definition test_env :: "(string \<Rightarrow> error + int) \<Rightarrow> Env" where
  "test_env redis = \<lparr>jwt_ParseWithClaims = test_lib, redis_Exists = redis, time_Now = 1697123500\<rparr>"

definition bearer :: "string \<Rightarrow> Request" where
  "bearer tok =
     \<lparr>RemoteAddr = ''10.0.0.1:5000'', SecWebSocketProtocol = [],
      Authorization = ''Bearer '' @ tok, QueryToken = []\<rparr>"

section \<open>Facts about association lists\<close>

lemma keys_delete: "fst ` set (AList.delete k al) = fst ` set al - {k}"
proof -
  have "set (map fst (AList.delete k al)) = set (map fst al) - {k}"
    by (simp only: delete_keys set_removeAll)
  then show ?thesis by simp
qed

lemma vals_update_subset: "set (map snd (AList.update k v al)) \<subseteq> insert v (set (map snd al))"
  by (induction al) auto

lemma distinct_vals_update:
  "distinct (map snd al) \<Longrightarrow> distinct (filter (\<lambda>x. x \<noteq> v) (map snd (AList.update k v al)))"
proof (induction al)
  case Nil
  then show ?case by simp
next
  case (Cons a al)
  obtain a1 a2 where a: "a = (a1, a2)" by (cases a)
  show ?case
  proof (cases "a1 = k")
    case True
    with Cons.prems a show ?thesis by (simp add: distinct_filter)
  next
    case False
    from Cons.prems a have "a2 \<notin> set (map snd al)" by simp
    with vals_update_subset [of k v al]
    have "a2 \<noteq> v \<Longrightarrow> a2 \<notin> set (map snd (AList.update k v al))" by auto
    with False Cons a show ?thesis by auto
  qed
qed

section \<open>The chunked map\<close>

lemma update_fresh: "k \<notin> fst ` set al \<Longrightarrow> AList.update k v al = al @ [(k, v)]"
  by (induction al) auto

lemma fold_update_fresh:
  "distinct ks \<Longrightarrow> set ks \<inter> fst ` set al = {} \<Longrightarrow>
   fold (\<lambda>k. AList.update k (f k)) ks al = al @ map (\<lambda>k. (k, f k)) ks"
proof (induction ks arbitrary: al)
  case Nil
  then show ?case by simp
next
  case (Cons k ks)
  from Cons.prems have fresh: "k \<notin> fst ` set al" by auto
  from Cons.prems have "set ks \<inter> fst ` set (al @ [(k, f k)]) = {}" by auto
  with Cons.prems Cons.IH [of "al @ [(k, f k)]"] fresh show ?case
    by (simp add: update_fresh)
qed

lemma map_of_fold_update:
  "map_of (fold (\<lambda>k. AList.update k (f k)) ks al) x =
     (if x \<in> set ks then Some (f x) else map_of al x)"
  by (induction ks arbitrary: al) (auto simp add: update_conv')

lemma generateHexes_fold:
  "Hexes (generateHexes c) =
     fold (\<lambda>l. AList.update l (hex_at c l)) (disc_cells (Radius c)) (Hexes c)"
proof -
  have row: "hex_row c q = fold (\<lambda>l. AList.update l (hex_at c l))
       (map (Axial q) [maxInt (- Radius c) (- q - Radius c)..minInt (Radius c) (- q + Radius c)])" for q
  proof -
    have "put_hex c q = (\<lambda>r. AList.update (Axial q r) (hex_at c (Axial q r)))"
      by (intro ext) (simp add: put_hex_def hex_at_def Let_def)
    then show ?thesis
      by (intro ext) (simp add: hex_row_def Let_def fold_map comp_def)
  qed
  have "fold (hex_row c) qs hs =
        fold (\<lambda>l. AList.update l (hex_at c l))
          (concat (map (\<lambda>q. map (Axial q)
             [maxInt (- Radius c) (- q - Radius c)..minInt (Radius c) (- q + Radius c)]) qs)) hs"
    for qs hs
    by (induction qs arbitrary: hs) (simp_all add: row)
  then show ?thesis by (simp add: generateHexes_def disc_cells_def)
qed

lemma in_disc_cells:
  "l \<in> set (disc_cells rad) \<longleftrightarrow> \<bar>Q l\<bar> \<le> rad \<and> \<bar>R l\<bar> \<le> rad \<and> \<bar>Q l + R l\<bar> \<le> rad"
proof (cases l)
  case (Axial q r)
  have "l \<in> set (disc_cells rad) \<longleftrightarrow>
      q \<in> {- rad..rad} \<and> r \<in> {maxInt (- rad) (- q - rad)..minInt rad (- q + rad)}"
  proof -
    have mem: "Axial q r \<in> Axial q' ` S \<longleftrightarrow> q' = q \<and> r \<in> S" for q' S by auto
    show ?thesis unfolding Axial disc_cells_def by (simp add: mem Bex_def)
  qed
  also have "\<dots> \<longleftrightarrow> \<bar>q\<bar> \<le> rad \<and> \<bar>r\<bar> \<le> rad \<and> \<bar>q + r\<bar> \<le> rad"
    by (auto simp add: maxInt_def minInt_def)
  finally show ?thesis by (simp add: Axial)
qed

lemma distinct_rows:
  "distinct qs \<Longrightarrow> distinct (concat (map (\<lambda>q. map (Axial q) [lo q..hi q]) qs))"
proof (induction qs)
  case Nil
  then show ?case by simp
next
  case (Cons q qs)
  have "distinct (map (Axial q) [lo q..hi q])"
    by (simp add: distinct_map inj_on_def)
  moreover from Cons have "distinct (concat (map (\<lambda>q. map (Axial q) [lo q..hi q]) qs))" by simp
  moreover from Cons.prems have "set (map (Axial q) [lo q..hi q]) \<inter>
       set (concat (map (\<lambda>q. map (Axial q) [lo q..hi q]) qs)) = {}" by auto
  ultimately show ?case by simp
qed

lemma distinct_disc_cells: "distinct (disc_cells rad)"
  unfolding disc_cells_def by (rule distinct_rows) simp

lemma sum_ring_counts:
  "(\<Sum>q \<in> {- int n..int n}. c - \<bar>q\<bar>) = (2 * int n + 1) * c - int n * (int n + 1)"
proof (induction n)
  case 0
  then show ?case by simp
next
  case (Suc n)
  have split: "{- int (Suc n)..int (Suc n)} =
      insert (- int (Suc n)) (insert (int (Suc n)) {- int n..int n})" by auto
  have "(\<Sum>q \<in> {- int (Suc n)..int (Suc n)}. c - \<bar>q\<bar>) =
      (c - int (Suc n)) + ((c - int (Suc n)) + (\<Sum>q \<in> {- int n..int n}. c - \<bar>q\<bar>))"
    unfolding split by (subst sum.insert, simp, simp, subst sum.insert, simp, simp, simp)
  with Suc show ?case by (simp add: algebra_simps)
qed

lemma sum_list_int_conv: "int (sum_list (map f xs)) = sum_list (map (\<lambda>x. int (f x)) xs)"
  by (induction xs) simp_all

lemma length_disc_cells:
  assumes "0 \<le> rad"
  shows "int (length (disc_cells rad)) = 1 + 3 * rad * (rad + 1)"
proof -
  have row: "int (length (map (Axial q) [maxInt (- rad) (- q - rad)..minInt rad (- q + rad)])) =
      (2 * rad + 1) - \<bar>q\<bar>" if "q \<in> {- rad..rad}" for q
    using that by (auto simp add: maxInt_def minInt_def)
  have "int (length (disc_cells rad)) =
      (\<Sum>q\<leftarrow>[- rad..rad]. int (length (map (Axial q) [maxInt (- rad) (- q - rad)..minInt rad (- q + rad)])))"
    by (simp add: disc_cells_def length_concat comp_def sum_list_int_conv)
  also have "\<dots> = (\<Sum>q \<in> {- rad..rad}. int (length (map (Axial q) [maxInt (- rad) (- q - rad)..minInt rad (- q + rad)])))"
    by (simp add: sum_list_distinct_conv_sum_set)
  also have "\<dots> = (\<Sum>q \<in> {- rad..rad}. (2 * rad + 1) - \<bar>q\<bar>)"
    by (rule sum.cong) (simp_all only: row)
  also have "\<dots> = (2 * rad + 1) * (2 * rad + 1) - rad * (rad + 1)"
    using sum_ring_counts [where n = "nat rad" and c = "2 * rad + 1"] assms by simp
  also have "\<dots> = 1 + 3 * rad * (rad + 1)" by (simp add: algebra_simps)
  finally show ?thesis .
qed

lemma distance_from_origin:
  "DistanceAxial (Axial 0 0) l \<le> rad \<longleftrightarrow> \<bar>Q l\<bar> \<le> rad \<and> \<bar>R l\<bar> \<le> rad \<and> \<bar>Q l + R l\<bar> \<le> rad"
  by (auto simp add: DistanceAxial_def DistanceCube_def ToCube_def Let_def)

lemma generateHexes_empty:
  "Hexes c = [] \<Longrightarrow>
   Hexes (generateHexes c) = map (\<lambda>l. (l, hex_at c l)) (disc_cells (Radius c))"
  using fold_update_fresh [of "disc_cells (Radius c)" "[]" "hex_at c"]
  by (simp add: generateHexes_fold distinct_disc_cells)

lemma GetHex_generateHexes:
  "GetHex (generateHexes c) l =
     (if DistanceAxial (Axial 0 0) l \<le> Radius c then Some (hex_at c l) else GetHex c l)"
  by (simp add: GetHex_def generateHexes_fold map_of_fold_update in_disc_cells distance_from_origin)

lemma generateHexes_fields:
  "Generated (generateHexes c) \<and> Radius (generateHexes c) = Radius c \<and>
   ChunkPos (generateHexes c) = ChunkPos c"
  by (simp add: generateHexes_def)

text \<open>
  Claim C8. A chunk made by \<open>NewHexChunk\<close> is generated when it is returned
  (\<open>Generated\<close> is true), has radius 9 and holds exactly 271 cells, one at every local
  position within distance 9 of the local origin and none elsewhere. For every radius
  \<open>R \<ge> 0\<close>, \<open>generateHexes\<close> on an empty chunk of radius \<open>R\<close> gives a generated chunk with
  exactly \<open>1 + 3R(R+1)\<close> cells, one at every local position within distance \<open>R\<close>.
\<close>

theorem NewHexChunk_complete:
  "Generated (NewHexChunk p) \<and> Radius (NewHexChunk p) = 9 \<and>
   HexCount (NewHexChunk p) = 271 \<and>
   (GetHex (NewHexChunk p) l \<noteq> None \<longleftrightarrow> DistanceAxial (Axial 0 0) l \<le> 9) \<and>
   (0 \<le> rad \<longrightarrow>
      Generated (generateHexes \<lparr>ChunkPos = p, Hexes = [], Generated = False, Radius = rad\<rparr>) \<and>
      HexCount (generateHexes \<lparr>ChunkPos = p, Hexes = [], Generated = False, Radius = rad\<rparr>) =
        1 + 3 * rad * (rad + 1) \<and>
      (GetHex (generateHexes \<lparr>ChunkPos = p, Hexes = [], Generated = False, Radius = rad\<rparr>) l \<noteq> None
         \<longleftrightarrow> DistanceAxial (Axial 0 0) l \<le> rad))"
proof -
  have gen: "0 \<le> k \<Longrightarrow>
      HexCount (generateHexes \<lparr>ChunkPos = p, Hexes = [], Generated = False, Radius = k\<rparr>) =
        1 + 3 * k * (k + 1)" for k
    using length_disc_cells [of k] by (simp add: HexCount_def generateHexes_empty)
  have look: "(GetHex (generateHexes \<lparr>ChunkPos = p, Hexes = [], Generated = False, Radius = k\<rparr>) l \<noteq> None)
      \<longleftrightarrow> DistanceAxial (Axial 0 0) l \<le> k" for k
    by (simp add: GetHex_generateHexes) (simp add: GetHex_def)
  from gen [of 9] have "HexCount (NewHexChunk p) = 271"
    by (simp add: NewHexChunk_def defaultRadius_def)
  moreover from look [of 9]
  have "(GetHex (NewHexChunk p) l \<noteq> None) \<longleftrightarrow> DistanceAxial (Axial 0 0) l \<le> 9"
    by (simp add: NewHexChunk_def defaultRadius_def)
  ultimately show ?thesis
    using gen [of rad] look [of rad]
    by (simp add: NewHexChunk_def defaultRadius_def generateHexes_fields)
qed

theorem NewHexChunk_complete_witness:
  "(0::int) \<le> 2 \<and>
   HexCount (generateHexes \<lparr>ChunkPos = Axial 0 0, Hexes = [], Generated = False, Radius = 2\<rparr>) = 19 \<and>
   GetHex (generateHexes \<lparr>ChunkPos = Axial 0 0, Hexes = [], Generated = False, Radius = 2\<rparr>)
     (Axial 2 0) \<noteq> None \<and>
   GetHex (generateHexes \<lparr>ChunkPos = Axial 0 0, Hexes = [], Generated = False, Radius = 2\<rparr>)
     (Axial 2 1) = None"
  using NewHexChunk_complete [of "Axial 0 0" "Axial 2 0" 2]
    NewHexChunk_complete [of "Axial 0 0" "Axial 2 1" 2]
  by (simp add: DistanceAxial_def DistanceCube_def ToCube_def Let_def)

lemma generateChunks_fold:
  "Chunks (snd (generateChunks gm)) =
     fold (\<lambda>pos. AList.update pos (NewHexChunk pos)) (disc_cells (ChunkRadius gm)) (Chunks gm)"
proof -
  have row: "chunk_row gm q = fold (\<lambda>pos. AList.update pos (NewHexChunk pos))
       (map (Axial q) [maxInt (- ChunkRadius gm) (- q - ChunkRadius gm)..
                       minInt (ChunkRadius gm) (- q + ChunkRadius gm)])" for q
    by (intro ext) (simp add: chunk_row_def Let_def fold_map comp_def)
  have "fold (chunk_row gm) qs cs =
        fold (\<lambda>pos. AList.update pos (NewHexChunk pos))
          (concat (map (\<lambda>q. map (Axial q)
             [maxInt (- ChunkRadius gm) (- q - ChunkRadius gm)..
              minInt (ChunkRadius gm) (- q + ChunkRadius gm)]) qs)) cs"
    for qs cs
    by (induction qs arbitrary: cs) (simp_all add: row)
  then show ?thesis by (simp add: generateChunks_def disc_cells_def)
qed

lemma GetChunk_New:
  "\<exists>gm. New k = Inr gm \<and> ChunkRadius gm = k \<and>
     (\<forall>pos. GetChunk gm pos =
        (if DistanceAxial (Axial 0 0) pos \<le> k then Some (NewHexChunk pos) else None))"
proof -
  let ?gm0 = "\<lparr>Chunks = [], ChunkRadius = k\<rparr>"
  have "New k = Inr (snd (generateChunks ?gm0))"
    by (simp add: New_def generateChunks_def)
  moreover have "GetChunk (snd (generateChunks ?gm0)) pos =
        (if DistanceAxial (Axial 0 0) pos \<le> k then Some (NewHexChunk pos) else None)" for pos
    by (simp add: GetChunk_def generateChunks_fold map_of_fold_update in_disc_cells
        distance_from_origin)
  moreover have "ChunkRadius (snd (generateChunks ?gm0)) = k"
    by (simp add: generateChunks_def)
  ultimately show ?thesis by blast
qed

text \<open>
  Claim C3 (the code does not do this). In the map of the default chunk radius 5 the
  chunks at grid positions (0,0) and (1,0) both hold a cell with world position (9,0):
  the first at local position (9,0), the second at its local origin. The lookup of a
  world position in the map is a stub that returns the error \<open>not implemented\<close>.
\<close>

theorem world_hex_in_two_chunks:
  "\<exists>gm c0 c1. New 5 = Inr gm \<and>
     GetChunk gm (Axial 0 0) = Some c0 \<and> ChunkPos c0 = Axial 0 0 \<and>
     GetChunk gm (Axial 1 0) = Some c1 \<and> ChunkPos c1 = Axial 1 0 \<and>
     map_option WorldPos (GetHex c0 (Axial 9 0)) = Some (Axial 9 0) \<and>
     map_option WorldPos (GetHex c1 (Axial 0 0)) = Some (Axial 9 0) \<and>
     GameMap_GetHex gm (Axial 9 0) = Inl NotImplemented"
proof -
  from GetChunk_New [of 5] obtain gm where gm: "New 5 = Inr gm"
    and look: "\<And>pos. GetChunk gm pos =
        (if DistanceAxial (Axial 0 0) pos \<le> 5 then Some (NewHexChunk pos) else None)"
    by blast
  have d: "DistanceAxial (Axial 0 0) (Axial 0 0) = 0" "DistanceAxial (Axial 0 0) (Axial 1 0) = 1"
    "DistanceAxial (Axial 0 0) (Axial 9 0) = 9"
    by (simp_all add: DistanceAxial_def DistanceCube_def ToCube_def Let_def)
  have c0: "GetChunk gm (Axial 0 0) = Some (NewHexChunk (Axial 0 0))"
    and c1: "GetChunk gm (Axial 1 0) = Some (NewHexChunk (Axial 1 0))"
    by (simp_all add: look d)
  have p: "ChunkPos (NewHexChunk pos) = pos" for pos
    by (simp add: NewHexChunk_def generateHexes_fields)
  have h0: "map_option WorldPos (GetHex (NewHexChunk (Axial 0 0)) (Axial 9 0)) = Some (Axial 9 0)"
    by (simp add: NewHexChunk_def GetHex_generateHexes d defaultRadius_def hex_at_def)
  have h1: "map_option WorldPos (GetHex (NewHexChunk (Axial 1 0)) (Axial 0 0)) = Some (Axial 9 0)"
    by (simp add: NewHexChunk_def GetHex_generateHexes d defaultRadius_def hex_at_def)
  from gm c0 c1 p h0 h1 show ?thesis by (simp add: GameMap_GetHex_def)
qed

section \<open>Rings and edges\<close>

lemma ring_side_walk:
  "ring_side k side (res, cur) =
     (res @ walk cur (Directions ! side) (nat k),
      Add cur (Mul (Directions ! side) (int (nat k))))"
proof -
  have "fold (\<lambda>step (res, cur). (res @ [cur], Add cur d)) [0..<n] (res, cur) =
        (res @ walk cur d n, Add cur (Mul d (int n)))" for d n
  proof (induction n)
    case 0
    then show ?case by (cases cur) (simp add: walk_def Add_def Mul_def)
  next
    case (Suc n)
    then show ?case
      by (cases cur, cases d) (simp add: walk_def Add_def Mul_def algebra_simps)
  qed
  then show ?thesis by (simp add: ring_side_def)
qed

lemma upt_6: "[0..<6] = [0, 1, 2, 3, 4, 5]"
  by (simp add: upt_rec)

lemma Ring_walks:
  assumes "0 < k"
  shows "Ring c k =
     Inr (concat (map (\<lambda>s. walk (Add c (corner k s)) (Directions ! s) (nat k)) [0, 1, 2, 3, 4, 5]))"
  using assms
  by (cases c)
     (simp add: Ring_def upt_6 ring_side_walk corner_def Directions_def Add_def Mul_def)

lemma side_cases: "s < 6 \<Longrightarrow> s = 0 \<or> s = 1 \<or> s = 2 \<or> s = 3 \<or> s = 4 \<or> s = (5::nat)"
  by arith

lemma max3: "(if dx > dy \<and> dx > dz then dx else if dy > dz then dy else dz) = max dx (max dy (dz::int))"
  by auto

lemma dist_max:
  "DistanceAxial (Axial a b) (Axial x y) = max \<bar>a - x\<bar> (max \<bar>(a - x) + (b - y)\<bar> \<bar>b - y\<bar>)"
proof -
  have "- a - b - (- x - y) = - ((a - x) + (b - y))" by simp
  then have "\<bar>- a - b - (- x - y)\<bar> = \<bar>(a - x) + (b - y)\<bar>" by (simp only: abs_minus_cancel)
  then show ?thesis
    by (simp only: DistanceAxial_def DistanceCube_def ToCube_def Let_def Axial.sel Cube.sel max3)
qed

lemma on_ring:
  assumes "0 < k" "s < 6" "int i < k"
  shows "DistanceAxial c (ring_cell c k s i) = k"
proof (cases c)
  case (Axial a b)
  from side_cases [OF assms(2)] assms(1,3) show ?thesis
    unfolding Axial by (elim disjE) (simp_all add: ring_cell_def corner_def Directions_def Add_def Mul_def dist_max)
qed

lemma outward_next:
  assumes "0 < k" "s < 6" "int i < k"
  shows "DistanceAxial c (Add (ring_cell c k ((s + 1) mod 6) i) (Directions ! s)) = k + 1"
proof (cases c)
  case (Axial a b)
  from side_cases [OF assms(2)] assms(1,3) show ?thesis
    unfolding Axial by (elim disjE) (simp_all add: ring_cell_def corner_def Directions_def Add_def Mul_def dist_max)
qed

lemma outward_next2:
  assumes "0 < k" "s < 6" "int i < k"
  shows "DistanceAxial c (Add (ring_cell c k ((s + 2) mod 6) i) (Directions ! s)) = k + 1"
proof (cases c)
  case (Axial a b)
  from side_cases [OF assms(2)] assms(1,3) show ?thesis
    unfolding Axial by (elim disjE) (simp_all add: ring_cell_def corner_def Directions_def Add_def Mul_def dist_max)
qed

lemma walk_cells: "walk (Add c (corner k s)) (Directions ! s) n = map (ring_cell c k s) [0..<n]"
  by (simp add: walk_def ring_cell_def)

lemma Ring_cells:
  "0 < k \<Longrightarrow>
   Ring c k = Inr (concat (map (\<lambda>s. map (ring_cell c k s) [0..<nat k]) [0, 1, 2, 3, 4, 5]))"
  by (simp add: Ring_walks walk_cells)

lemma Ring_ring_cells: "0 < k \<Longrightarrow> Ring c k = Inr (ring_cells c k)"
  by (simp add: Ring_cells ring_cells_def)

lemma length_ring_cells: "length (ring_cells c k) = 6 * nat k"
  by (simp add: ring_cells_def)

lemma ring_cells_distance:
  assumes "0 < k" "a \<in> set (ring_cells c k)"
  shows "DistanceAxial c a = k"
proof -
  have cell: "DistanceAxial c (ring_cell c k s i) = k" if "s < 6" "i < nat k" for s i
    using assms(1) that by (intro on_ring) simp_all
  from assms(2) show ?thesis by (auto simp add: ring_cells_def cell)
qed

lemma filter_indices_length:
  "length (filter (\<lambda>i. P (r ! i)) [0..<length r]) = length (filter P r)"
proof -
  have "filter P (map ((!) r) [0..<length r]) =
        map ((!) r) (filter (P \<circ> (!) r) [0..<length r])"
    by (rule filter_map)
  then have "length (filter P r) = length (filter (P \<circ> (!) r) [0..<length r])"
    by (simp add: map_nth)
  then show ?thesis by (simp add: comp_def)
qed

lemma two_terms_le_sum_list:
  fixes h :: "'a \<Rightarrow> nat"
  assumes "distinct xs" "j1 \<in> set xs" "j2 \<in> set xs" "j1 \<noteq> j2"
  shows "h j1 + h j2 \<le> sum_list (map h xs)"
proof -
  have "sum h {j1, j2} \<le> sum h (set xs)"
    using assms by (intro sum_mono2) auto
  with assms show ?thesis
    by (simp add: sum_list_distinct_conv_sum_set)
qed

lemma length_filter_concat:
  "length (filter P (concat (map g xs))) = sum_list (map (\<lambda>s. length (filter P (g s))) xs)"
  by (induction xs) simp_all

lemma outward_count:
  assumes k: "0 < k" and s: "s < 6"
  shows "2 * nat k \<le>
     length (filter (\<lambda>a. DistanceAxial c (Add a (Directions ! s)) = k + 1) (ring_cells c k))"
proof -
  let ?P = "\<lambda>a. DistanceAxial c (Add a (Directions ! s)) = k + 1"
  let ?h = "\<lambda>j. length (filter ?P (map (ring_cell c k j) [0..<nat k]))"
  have full1: "?h ((s + 1) mod 6) = nat k"
  proof -
    have "\<forall>a \<in> set (map (ring_cell c k ((s + 1) mod 6)) [0..<nat k]). ?P a"
      using outward_next [OF k s] by auto
    then show ?thesis by (simp only: filter_True length_map length_upt)
  qed
  have full2: "?h ((s + 2) mod 6) = nat k"
  proof -
    have "\<forall>a \<in> set (map (ring_cell c k ((s + 2) mod 6)) [0..<nat k]). ?P a"
      using outward_next2 [OF k s] by auto
    then show ?thesis by (simp only: filter_True length_map length_upt)
  qed
  have ne: "(s + 1) mod 6 \<noteq> (s + 2) mod 6" using s by presburger
  have "?h ((s + 1) mod 6) + ?h ((s + 2) mod 6) \<le> sum_list (map ?h [0, 1, 2, 3, 4, 5])"
  proof (rule two_terms_le_sum_list [OF _ _ _ ne])
    show "distinct [0, 1, 2, 3, 4, 5::nat]" by simp
    have "(s + 1) mod 6 < 6" "(s + 2) mod 6 < 6" by simp_all
    then show "(s + 1) mod 6 \<in> set [0, 1, 2, 3, 4, 5]" "(s + 2) mod 6 \<in> set [0, 1, 2, 3, 4, 5]"
      by (auto dest: side_cases)
  qed
  then show ?thesis
    unfolding ring_cells_def length_filter_concat full1 full2 by simp
qed

lemma map_nth_offset:
  "m + n \<le> length r \<Longrightarrow> map (\<lambda>i. r ! (m + i)) [0..<n] = take n (drop m r)"
  by (rule nth_equalityI) simp_all

lemma Edge_fallback_taken:
  assumes k: "1 \<le> rad" and s0: "0 \<le> side" and s6: "side < 6"
  shows "\<exists>ring. Ring c rad = Inr ring \<and> length ring = 6 * nat rad \<and>
     (\<forall>a \<in> set ring. DistanceAxial c a = rad) \<and>
     2 * nat rad \<le> length (edge_idxs c rad (nat side) ring) \<and>
     Edge c rad side = Inr (take (nat rad) (drop (nat side * nat rad) ring))"
proof -
  let ?n = "nat rad"
  let ?r = "ring_cells c rad"
  from k have pos: "0 < rad" by simp
  have ring: "Ring c rad = Inr ?r" using pos by (rule Ring_ring_cells)
  have len: "length ?r = 6 * ?n" by (rule length_ring_cells)
  have dist: "\<forall>a \<in> set ?r. DistanceAxial c a = rad"
    using pos by (simp add: ring_cells_distance)
  have sn: "nat side < 6" using s0 s6 by simp
  have cnt: "2 * ?n \<le> length (edge_idxs c rad (nat side) ?r)"
    using filter_indices_length
            [of "\<lambda>a. DistanceAxial c (Add a (Directions ! nat side)) = rad + 1" ?r]
          outward_count [OF pos sn, of c]
    by (simp only: edge_idxs_def)
  have "length ?r \<noteq> 0" unfolding len using pos by simp
  then have ne: "?r \<noteq> []" by simp
  have differs: "int (length (edge_idxs c rad (nat side) ?r)) \<noteq> rad"
    using cnt pos by arith
  have le: "nat side * ?n + ?n \<le> length ?r"
  proof -
    have "(nat side + 1) * ?n \<le> 6 * ?n" using sn by (intro mult_le_mono1) simp
    then show ?thesis unfolding len by (simp add: algebra_simps)
  qed
  have start: "(nat side * ?n) mod length ?r = nat side * ?n"
    using le pos by (intro mod_less) simp
  have fb: "edge_fallback rad (nat side) ?r = take ?n (drop (nat side * ?n) ?r)"
  proof -
    have "map (\<lambda>i. ?r ! ((nat side * ?n + i) mod length ?r)) [0..<?n] =
          map (\<lambda>i. ?r ! (nat side * ?n + i)) [0..<?n]"
      using le by (intro map_cong refl) simp
    then show ?thesis
      unfolding edge_fallback_def Let_def start using map_nth_offset [OF le] by simp
  qed
  have "Edge c rad side = Inr (take ?n (drop (nat side * ?n) ?r))"
    using pos s0 s6 ne differs
    by (simp add: Edge_def ring Let_def fb)
  with ring len dist cnt show ?thesis by blast
qed

lemma Ring_example_1:
  "Ring (Axial 0 0) 1 =
     Inr [Axial (- 1) 1, Axial 0 1, Axial 1 0, Axial 1 (- 1), Axial 0 (- 1), Axial (- 1) 0]"
  by (simp add: Ring_ring_cells ring_cells_def ring_cell_def corner_def Directions_def
      Add_def Mul_def)

lemma along_side:
  assumes "0 < k" "s < 6" "int i < k"
  shows "DistanceAxial c (Add (ring_cell c k s i) (Directions ! s)) = k"
proof (cases c)
  case (Axial a b)
  from side_cases [OF assms(2)] assms(1,3) show ?thesis
    unfolding Axial by (elim disjE) (simp_all add: ring_cell_def corner_def Directions_def Add_def Mul_def dist_max)
qed

lemma ring_cells_block:
  assumes "s < 6"
  shows "take (nat k) (drop (s * nat k) (ring_cells c k)) = map (ring_cell c k s) [0..<nat k]"
  using side_cases [OF assms] by (elim disjE) (simp_all add: ring_cells_def)

text \<open>
  Claim C7 (the code does otherwise). For every centre, radius \<open>rad \<ge> 1\<close> and side in
  0..5, \<open>Edge\<close> returns \<open>rad\<close> cells of the ring of radius \<open>rad\<close>, but they are not the cells
  whose neighbour in the direction of the side leaves the disc: the neighbour of every
  returned cell in that direction is at distance \<open>rad\<close>, on the ring again, while at least
  \<open>2 * rad\<close> cells of the ring have that neighbour at distance \<open>rad + 1\<close>.
\<close>

theorem Edge_cells_not_outward:
  assumes "1 \<le> rad" and "0 \<le> side" and "side < 6"
  shows "\<exists>cells ring. Edge c rad side = Inr cells \<and> Ring c rad = Inr ring \<and>
     length cells = nat rad \<and>
     (\<forall>a \<in> set cells. DistanceAxial c a = rad \<and>
        DistanceAxial c (Add a (Directions ! nat side)) = rad) \<and>
     2 * nat rad \<le>
       length (filter (\<lambda>a. DistanceAxial c (Add a (Directions ! nat side)) = rad + 1) ring)"
proof -
  let ?n = "nat rad"
  let ?cells = "map (ring_cell c rad (nat side)) [0..<?n]"
  from assms have pos: "0 < rad" and sn: "nat side < 6" by simp_all
  have ring: "Ring c rad = Inr (ring_cells c rad)" using pos by (rule Ring_ring_cells)
  from Edge_fallback_taken [OF assms, of c] ring
  have "Edge c rad side = Inr (take ?n (drop (nat side * ?n) (ring_cells c rad)))" by auto
  then have edge: "Edge c rad side = Inr ?cells" by (simp only: ring_cells_block [OF sn])
  have len: "length ?cells = ?n" by simp
  have cells: "\<forall>a \<in> set ?cells. DistanceAxial c a = rad \<and>
        DistanceAxial c (Add a (Directions ! nat side)) = rad"
    using pos sn by (auto simp add: on_ring along_side)
  have cnt: "2 * ?n \<le>
       length (filter (\<lambda>a. DistanceAxial c (Add a (Directions ! nat side)) = rad + 1)
         (ring_cells c rad))"
    using pos sn by (rule outward_count)
  from edge ring len cells cnt show ?thesis by blast
qed

text \<open>
  At centre (0,0), radius 1, side 0: \<open>Edge\<close> returns the one cell (-1,1), whose
  neighbour in direction 0 is at distance 1, not 2; the ring cells whose neighbour in
  direction 0 is at distance 2 are the three cells (0,1), (1,0) and (1,-1), none of
  which is returned.
\<close>

theorem Edge_not_outward_cells:
  "Edge (Axial 0 0) 1 0 = Inr [Axial (- 1) 1] \<and>
   DistanceAxial (Axial 0 0) (Add (Axial (- 1) 1) (Directions ! 0)) = 1 \<and>
   Ring (Axial 0 0) 1 =
     Inr [Axial (- 1) 1, Axial 0 1, Axial 1 0, Axial 1 (- 1), Axial 0 (- 1), Axial (- 1) 0] \<and>
   filter (\<lambda>a. DistanceAxial (Axial 0 0) (Add a (Directions ! 0)) = 1 + 1)
     [Axial (- 1) 1, Axial 0 1, Axial 1 0, Axial 1 (- 1), Axial 0 (- 1), Axial (- 1) 0] =
     [Axial 0 1, Axial 1 0, Axial 1 (- 1)]"
proof -
  from Edge_fallback_taken [of 1 0 "Axial 0 0"]
  have e: "Edge (Axial 0 0) 1 0 = Inr [Axial (- 1) 1]"
    by (auto simp add: Ring_example_1)
  from Edge_cells_not_outward [of 1 0 "Axial 0 0"] e
  have d: "DistanceAxial (Axial 0 0) (Add (Axial (- 1) 1) (Directions ! 0)) = 1"
    by auto
  have f: "filter (\<lambda>a. DistanceAxial (Axial 0 0) (Add a (Directions ! 0)) = 1 + 1)
     [Axial (- 1) 1, Axial 0 1, Axial 1 0, Axial 1 (- 1), Axial 0 (- 1), Axial (- 1) 0] =
     [Axial 0 1, Axial 1 0, Axial 1 (- 1)]"
    by (simp add: dist_max Directions_def Add_def)
  from e d f show ?thesis by (simp add: Ring_example_1)
qed

section \<open>The session roster\<close>

lemma New_Inr: "\<exists>gm. New chunkRadius = Inr gm"
  by (simp add: New_def generateChunks_def)

lemma NewSession_Inr:
  "\<exists>gm. NewSession ident cfg now =
     Inr \<lparr>sess_ID = ident, CreatedAt = now, players = [], connections = [],
          gameMap = gm,
          status = \<lparr>State = ''waiting'', PlayerCount = 0,
                    MaxPlayers = Session_MaxPlayers cfg, ServerTick = 0, Uptime = 0\<rparr>,
          config = cfg\<rparr>"
  using New_Inr [of "Session_InitialMapRadius cfg"]
  by (auto simp add: NewSession_def)

lemma session_inv_created: "NewSession ident cfg now = Inr s \<Longrightarrow> session_inv s"
  using NewSession_Inr [of ident cfg now]
  by (auto simp add: session_inv_def)

lemma session_inv_added: "session_inv s \<Longrightarrow> session_inv (snd (AddPlayer s p conn))"
  by (simp add: session_inv_def AddPlayer_def Let_def distinct_update dom_update)

lemma session_inv_removed: "session_inv s \<Longrightarrow> session_inv (RemovePlayer s playerID)"
  by (auto simp add: session_inv_def RemovePlayer_def Let_def distinct_delete keys_delete
      split: option.splits)

lemma reachable_inv: "reachable s \<Longrightarrow> session_inv s"
  by (induction rule: reachable.induct)
     (simp_all add: session_inv_created session_inv_added session_inv_removed)

lemma AddPlayer_lookup:
  "map_of (players (snd (AddPlayer s p conn))) (ID p) = Some p \<and>
   map_of (connections (snd (AddPlayer s p conn))) (ID p) = Some conn"
  by (simp add: AddPlayer_def Let_def update_conv')

lemma mk_player_sel:
  "ID (mk_player i n) = i" "Username (mk_player i n) = n"
  "Email (mk_player i n) = n @ ''@example.com''"
  by (simp_all add: mk_player_def)

text \<open>
  Claim C9. \<open>AddPlayer\<close> returns no error for any session, player and connection, and the
  player and the connection are in the roster afterwards. \<open>MaxPlayers\<close> is carried in the
  status unchanged and nothing is compared with it: when the roster already holds
  \<open>MaxPlayers\<close> players and a new one is added, the player count ends above the bound.
\<close>

theorem AddPlayer_unconditional:
  "fst (AddPlayer s p conn) = None \<and>
   map_of (players (snd (AddPlayer s p conn))) (ID p) = Some p \<and>
   map_of (connections (snd (AddPlayer s p conn))) (ID p) = Some conn \<and>
   MaxPlayers (status (snd (AddPlayer s p conn))) = MaxPlayers (status s) \<and>
   PlayerCount (status (snd (AddPlayer s p conn))) =
     int (length (players (snd (AddPlayer s p conn)))) \<and>
   (MaxPlayers (status s) \<le> int (length (players s)) \<and> ID p \<notin> fst ` set (players s) \<longrightarrow>
      MaxPlayers (status (snd (AddPlayer s p conn))) <
        PlayerCount (status (snd (AddPlayer s p conn))))"
proof -
  have "ID p \<notin> fst ` set (players s) \<Longrightarrow>
        length (AList.update (ID p) p (players s)) = Suc (length (players s))"
    using update_keys [of "ID p" p "players s"]
    by (metis length_append_singleton length_map list.set_map)
  then show ?thesis
    by (auto simp add: AddPlayer_def Let_def update_conv')
qed

theorem AddPlayer_unconditional_witness:
  "MaxPlayers (status full_session) \<le> int (length (players full_session)) \<and>
   ID (mk_player ''456'' ''bob'') \<notin> fst ` set (players full_session) \<and>
   fst (AddPlayer full_session (mk_player ''456'' ''bob'') 2) = None \<and>
   MaxPlayers (status (snd (AddPlayer full_session (mk_player ''456'' ''bob'') 2))) = 1 \<and>
   PlayerCount (status (snd (AddPlayer full_session (mk_player ''456'' ''bob'') 2))) = 2"
  using AddPlayer_unconditional [of full_session "mk_player ''456'' ''bob''" 2]
  by (simp add: full_session_def mk_player_def AddPlayer_def Let_def)

text \<open>
  Claim C10. In every session the code can produce (made by \<open>NewSession\<close>, then changed
  by any sequence of \<open>AddPlayer\<close> and \<open>RemovePlayer\<close>, a player id already present
  included) the players map and the connections map have the same set of keys, and the
  player count of the status is the number of keys of the players map.
\<close>

theorem roster_keys_and_count:
  "reachable s \<Longrightarrow>
     fst ` set (players s) = fst ` set (connections s) \<and>
     PlayerCount (status s) = int (card (fst ` set (players s)))"
proof -
  assume "reachable s"
  then have inv: "session_inv s" by (rule reachable_inv)
  then have "card (fst ` set (players s)) = length (players s)"
    using distinct_card [of "map fst (players s)"] by (simp add: session_inv_def)
  with inv show ?thesis by (simp add: session_inv_def)
qed

theorem roster_keys_and_count_witness:
  "\<exists>s0. NewSession ''main'' cfg_default 0 = Inr s0 \<and>
        reachable (snd (AddPlayer s0 (mk_player ''123'' ''alice'') 1)) \<and>
        fst ` set (players (snd (AddPlayer s0 (mk_player ''123'' ''alice'') 1))) = {''123''} \<and>
        fst ` set (connections (snd (AddPlayer s0 (mk_player ''123'' ''alice'') 1))) = {''123''} \<and>
        PlayerCount (status (snd (AddPlayer s0 (mk_player ''123'' ''alice'') 1))) = 1"
proof -
  obtain s0 where s0: "NewSession ''main'' cfg_default 0 = Inr s0" and p0: "players s0 = []"
    using NewSession_Inr [of "''main''" cfg_default 0] by auto
  let ?s1 = "snd (AddPlayer s0 (mk_player ''123'' ''alice'') 1)"
  have r: "reachable ?s1"
    by (rule reachable.added) (rule reachable.created [OF s0])
  have keys: "fst ` set (players ?s1) = {''123''}"
    by (simp add: AddPlayer_def Let_def p0 mk_player_def)
  from roster_keys_and_count [OF r] keys
  have "fst ` set (connections ?s1) = {''123''}" and "PlayerCount (status ?s1) = 1"
    by simp_all
  with s0 r keys show ?thesis by blast
qed

section \<open>The outbound queue\<close>

text \<open>
  Claim C6. \<open>NewConnection\<close> gives the outbound queue the capacity 256. For every message
  handed to \<open>SendMessage\<close> on a connection whose channel is open, the call returns (the
  producer is not blocked) and changes neither the session nor any other connection;
  when the queue is full its contents stay as they are and the drop warning is logged,
  otherwise the message is appended to the queue and nothing is logged.
\<close>

theorem SendMessage_bounded:
  "send_cap NewConnection = 256 \<and>
   (\<not> send_closed (conns srv c) \<longrightarrow>
      (\<exists>srv'. SendMessage c msg srv = Inr srv' \<and>
         session srv' = session srv \<and>
         (\<forall>c'. c' \<noteq> c \<longrightarrow> conns srv' c' = conns srv c') \<and>
         send_cap (conns srv' c) = send_cap (conns srv c) \<and>
         (if send_cap (conns srv c) \<le> length (send (conns srv c))
          then send (conns srv' c) = send (conns srv c) \<and>
               logs srv' = logs srv @ [''Send buffer full, dropping message'']
          else send (conns srv' c) = send (conns srv c) @ [msg] \<and>
               logs srv' = logs srv)))"
  by (simp add: NewConnection_def SendMessage_def json_Marshal_def Let_def)

theorem SendMessage_bounded_witness:
  "\<not> send_closed (conns full_queue 1) \<and>
   (\<exists>srv'. SendMessage 1 (chat_from_bob 1) full_queue = Inr srv' \<and>
      send (conns srv' 1) = replicate 256 (chat_from_bob 0) \<and>
      logs srv' = [''Send buffer full, dropping message'']) \<and>
   \<not> send_closed (conns three_joined 1) \<and>
   (\<exists>srv'. SendMessage 1 (chat_from_bob 1) three_joined = Inr srv' \<and>
      send (conns srv' 1) = [chat_from_bob 1] \<and> logs srv' = [])"
proof -
  have o1: "\<not> send_closed (conns full_queue 1)"
    by (simp add: full_queue_def test_server_def authed_def NewConnection_def)
  have o2: "\<not> send_closed (conns three_joined 1)"
    by (simp add: three_joined_def test_server_def authed_def NewConnection_def)
  from SendMessage_bounded [of full_queue 1 "chat_from_bob 1"] o1
  have a: "\<exists>srv'. SendMessage 1 (chat_from_bob 1) full_queue = Inr srv' \<and>
      send (conns srv' 1) = replicate 256 (chat_from_bob 0) \<and>
      logs srv' = [''Send buffer full, dropping message'']"
    by (auto simp add: full_queue_def test_server_def authed_def NewConnection_def)
  from SendMessage_bounded [of three_joined 1 "chat_from_bob 1"] o2
  have b: "\<exists>srv'. SendMessage 1 (chat_from_bob 1) three_joined = Inr srv' \<and>
      send (conns srv' 1) = [chat_from_bob 1] \<and> logs srv' = []"
    by (auto simp add: three_joined_def test_server_def authed_def NewConnection_def)
  from o1 o2 a b show ?thesis by blast
qed

section \<open>Joining\<close>

lemma SendMessage_open:
  "\<not> send_closed (conns srv c) \<Longrightarrow>
   \<exists>srv'. SendMessage c msg srv = Inr srv' \<and> session srv' = session srv \<and>
          conns srv' = (conns srv)(c := offer msg (conns srv c))"
  by (auto simp add: SendMessage_def json_Marshal_def Let_def offer_def fun_eq_iff)

lemma offer_closed [simp]: "send_closed (offer msg conn) = send_closed conn"
  by (simp add: offer_def)

lemma send_each_open:
  "\<forall>c \<in> set cs. \<not> send_closed (conns srv c) \<Longrightarrow> distinct cs \<Longrightarrow>
   \<exists>srv'. send_each cs msg srv = Inr srv' \<and> session srv' = session srv \<and>
          conns srv' = (\<lambda>c. if c \<in> set cs then offer msg (conns srv c) else conns srv c)"
proof (induction cs arbitrary: srv)
  case Nil
  then show ?case by simp
next
  case (Cons a cs)
  from Cons.prems have "\<not> send_closed (conns srv a)" by simp
  from SendMessage_open [OF this, of msg]
  obtain srv1 where s1: "SendMessage a msg srv = Inr srv1" "session srv1 = session srv"
    "conns srv1 = (conns srv)(a := offer msg (conns srv a))" by blast
  from Cons.prems s1(3) have "\<forall>c \<in> set cs. \<not> send_closed (conns srv1 c)" by simp
  moreover from Cons.prems have "distinct cs" by simp
  ultimately obtain srv' where s': "send_each cs msg srv1 = Inr srv'" "session srv' = session srv1"
    "conns srv' = (\<lambda>c. if c \<in> set cs then offer msg (conns srv1 c) else conns srv1 c)"
    using Cons.IH [of srv1] by blast
  from Cons.prems have "a \<notin> set cs" by simp
  with s1 s' show ?case by (auto simp add: fun_eq_iff)
qed

lemma handleJoin_steps:
  assumes pl: "player (conns srv c) = Some p0" and au: "authenticated (conns srv c)"
  shows "handleJoin c now srv =
     (let p = joined_player p0 now (session srv);
          srv2 = srv\<lparr>conns := (conns srv)(c := (conns srv c)\<lparr>player := Some p\<rparr>),
                    session := snd (AddPlayer (session srv) p c)\<rparr>;
          s' = session srv2
      in case SendMessage c
                \<lparr>Type = ''welcome'',
                 Payload = WelcomePayload (ID p0) (Username p0) (sess_ID (session srv))
                   \<lparr>State = State (status s'), PlayerCount = PlayerCount (status s'),
                    MaxPlayers = MaxPlayers (status s'), ServerTick = ServerTick (status s'),
                    Uptime = Uptime (status s')\<rparr>\<rparr> srv2 of
           Inl pn \<Rightarrow> Inl pn
         | Inr srv3 \<Rightarrow> BroadcastExcept c (player_joined_msg p0) srv3)"
  using pl au
  by (simp add: handleJoin_def Let_def AddPlayer_def joined_player_def player_joined_msg_def
      MsgTypeWelcome_def MsgTypePlayerJoined_def split: sum.splits)

text \<open>
  Claim C5. Let an authenticated connection \<open>c\<close> with player \<open>p0\<close> send a join, in a
  session the code can produce, with the channels of \<open>c\<close> and of the roster's connections
  open and every connection in the roster at most once. Then \<open>handleJoin\<close> returns, and
  it has, in this order, (1) stored the player and the connection in the roster under
  the player's id and set the player count to the size of the roster, which contains the
  joiner (the count is 1 for the first player); (2) offered the joiner's queue a
  \<open>welcome\<close> with the player's id and name, the session's id, state \<open>waiting\<close>, that
  player count, the configured maximum, server tick 0 and uptime 0; (3) offered
  \<open>player_joined\<close> to the queue of every other connection of the roster, and to no other
  queue: the joiner's queue gets the welcome only. A queue that is offered a message
  takes it when it has room and drops it otherwise (claim C6).
\<close>

theorem handleJoin_admits:
  assumes pl: "player (conns srv c) = Some p0" and au: "authenticated (conns srv c)"
    and re: "reachable (session srv)"
    and di: "distinct (map snd (connections (session srv)))"
    and op: "\<not> send_closed (conns srv c)"
    and ops: "\<forall>c' \<in> snd ` set (connections (session srv)). \<not> send_closed (conns srv c')"
  shows "\<exists>srv2 srv3 srv'.
     srv2 = srv\<lparr>conns := (conns srv)
                (c := (conns srv c)\<lparr>player := Some (joined_player p0 now (session srv))\<rparr>),
              session := snd (AddPlayer (session srv) (joined_player p0 now (session srv)) c)\<rparr> \<and>
     SendMessage c (welcome_msg p0 (session srv2)) srv2 = Inr srv3 \<and>
     BroadcastExcept c (player_joined_msg p0) srv3 = Inr srv' \<and>
     handleJoin c now srv = Inr srv' \<and>
     session srv' = session srv2 \<and>
     map_of (players (session srv')) (ID p0) = Some (joined_player p0 now (session srv)) \<and>
     map_of (connections (session srv')) (ID p0) = Some c \<and>
     fst ` set (players (session srv')) = insert (ID p0) (fst ` set (players (session srv))) \<and>
     PlayerCount (status (session srv')) = int (card (fst ` set (players (session srv')))) \<and>
     (players (session srv) = [] \<longrightarrow> PlayerCount (status (session srv')) = 1) \<and>
     sess_ID (session srv') = sess_ID (session srv) \<and>
     MaxPlayers (status (session srv')) = Session_MaxPlayers (config (session srv)) \<and>
     conns srv' c =
       offer (welcome_msg p0 (session srv'))
         ((conns srv c)\<lparr>player := Some (joined_player p0 now (session srv))\<rparr>) \<and>
     (\<forall>c'. c' \<noteq> c \<longrightarrow>
        conns srv' c' =
          (if c' \<in> snd ` set (connections (session srv'))
           then offer (player_joined_msg p0) (conns srv c') else conns srv c'))"
proof -
  let ?p = "joined_player p0 now (session srv)"
  let ?s' = "snd (AddPlayer (session srv) ?p c)"
  let ?srv2 = "srv\<lparr>conns := (conns srv)(c := (conns srv c)\<lparr>player := Some ?p\<rparr>), session := ?s'\<rparr>"
  have idp: "ID ?p = ID p0" by (simp add: joined_player_def)
  have inv: "session_inv (session srv)" using re by (rule reachable_inv)
  have inv': "session_inv ?s'" using inv by (rule session_inv_added)
  have card': "PlayerCount (status ?s') = int (card (fst ` set (players ?s')))"
    using inv' distinct_card [of "map fst (players ?s')"] by (simp add: session_inv_def)
  have sid: "sess_ID ?s' = sess_ID (session srv)" by (simp add: AddPlayer_def Let_def)
  have mx: "MaxPlayers (status ?s') = Session_MaxPlayers (config (session srv))"
    using inv by (simp add: AddPlayer_def Let_def session_inv_def)
  have wel: "\<lparr>Type = ''welcome'',
       Payload = WelcomePayload (ID p0) (Username p0) (sess_ID (session srv))
         \<lparr>State = State (status ?s'), PlayerCount = PlayerCount (status ?s'),
          MaxPlayers = MaxPlayers (status ?s'), ServerTick = ServerTick (status ?s'),
          Uptime = Uptime (status ?s')\<rparr>\<rparr> = welcome_msg p0 ?s'"
    using inv' by (simp add: welcome_msg_def session_inv_def sid)
  have op2: "\<not> send_closed (conns ?srv2 c)" using op by simp
  from SendMessage_open [OF op2, of "welcome_msg p0 ?s'"]
  obtain srv3 where s3: "SendMessage c (welcome_msg p0 ?s') ?srv2 = Inr srv3"
    "session srv3 = ?s'"
    "conns srv3 = (conns ?srv2)(c := offer (welcome_msg p0 ?s') (conns ?srv2 c))"
    by auto
  let ?cs = "filter (\<lambda>conn. conn \<noteq> c) (map snd (connections ?s'))"
  have conns': "connections ?s' = AList.update (ID p0) c (connections (session srv))"
    by (simp add: AddPlayer_def Let_def idp)
  have dcs: "distinct ?cs" unfolding conns' using di by (rule distinct_vals_update)
  have sub: "set ?cs \<subseteq> snd ` set (connections (session srv))"
    using vals_update_subset [of "ID p0" c "connections (session srv)"]
    unfolding conns' by auto
  have opcs: "\<forall>c' \<in> set ?cs. \<not> send_closed (conns srv3 c')"
  proof
    fix c' assume m: "c' \<in> set ?cs"
    then have ne: "c' \<noteq> c" by simp
    from m sub have "c' \<in> snd ` set (connections (session srv))" by blast
    with ops have "\<not> send_closed (conns srv c')" by blast
    with ne s3(3) show "\<not> send_closed (conns srv3 c')" by simp
  qed
  from send_each_open [OF opcs dcs, of "player_joined_msg p0"]
  obtain srv' where s': "send_each ?cs (player_joined_msg p0) srv3 = Inr srv'"
    "session srv' = session srv3"
    "conns srv' = (\<lambda>c'. if c' \<in> set ?cs then offer (player_joined_msg p0) (conns srv3 c') else conns srv3 c')"
    by blast
  have be: "BroadcastExcept c (player_joined_msg p0) srv3 = Inr srv'"
    using s'(1) s3(2) by (simp add: BroadcastExcept_def)
  have hj: "handleJoin c now srv = Inr srv'"
    using s3(1) be by (simp add: handleJoin_steps [OF pl au] Let_def wel)
  have sess: "session srv' = ?s'" using s'(2) s3(2) by simp
  have r1: "map_of (players ?s') (ID p0) = Some ?p"
    using AddPlayer_lookup [of "session srv" ?p c] by (simp add: idp)
  have r2: "map_of (connections ?s') (ID p0) = Some c"
    using AddPlayer_lookup [of "session srv" ?p c] by (simp add: idp)
  have r3: "fst ` set (players ?s') = insert (ID p0) (fst ` set (players (session srv)))"
    by (simp add: AddPlayer_def Let_def idp dom_update)
  have r4: "players (session srv) = [] \<longrightarrow> PlayerCount (status ?s') = 1"
    by (simp add: AddPlayer_def Let_def)
  have r5: "conns srv' c = offer (welcome_msg p0 ?s') ((conns srv c)\<lparr>player := Some ?p\<rparr>)"
    using s'(3) s3(3) by simp
  have r6: "\<forall>c'. c' \<noteq> c \<longrightarrow>
        conns srv' c' =
          (if c' \<in> snd ` set (connections ?s')
           then offer (player_joined_msg p0) (conns srv c') else conns srv c')"
    using s'(3) s3(3) by auto
  have s3': "SendMessage c (welcome_msg p0 (session ?srv2)) ?srv2 = Inr srv3"
    using s3(1) by simp
  have "?srv2 = ?srv2 \<and>
     SendMessage c (welcome_msg p0 (session ?srv2)) ?srv2 = Inr srv3 \<and>
     BroadcastExcept c (player_joined_msg p0) srv3 = Inr srv' \<and>
     handleJoin c now srv = Inr srv' \<and>
     session srv' = session ?srv2 \<and>
     map_of (players (session srv')) (ID p0) = Some ?p \<and>
     map_of (connections (session srv')) (ID p0) = Some c \<and>
     fst ` set (players (session srv')) = insert (ID p0) (fst ` set (players (session srv))) \<and>
     PlayerCount (status (session srv')) = int (card (fst ` set (players (session srv')))) \<and>
     (players (session srv) = [] \<longrightarrow> PlayerCount (status (session srv')) = 1) \<and>
     sess_ID (session srv') = sess_ID (session srv) \<and>
     MaxPlayers (status (session srv')) = Session_MaxPlayers (config (session srv)) \<and>
     conns srv' c = offer (welcome_msg p0 (session srv')) ((conns srv c)\<lparr>player := Some ?p\<rparr>) \<and>
     (\<forall>c'. c' \<noteq> c \<longrightarrow>
        conns srv' c' =
          (if c' \<in> snd ` set (connections (session srv'))
           then offer (player_joined_msg p0) (conns srv c') else conns srv c'))"
    unfolding sess using s3' be hj r1 r2 r3 r4 r5 r6 card' sid mx by simp
  then show ?thesis by (intro exI)
qed

theorem handleJoin_admits_witness:
  "\<exists>s0 srv'. NewSession ''main'' cfg_default 0 = Inr s0 \<and>
     handleJoin 1 1697123500
       (test_server (snd (AddPlayer s0 (mk_player ''456'' ''bob'') 2)) two_conns) = Inr srv' \<and>
     fst ` set (players (session srv')) = {''123'', ''456''} \<and>
     send (conns srv' 1) =
       [\<lparr>Type = ''welcome'',
         Payload = WelcomePayload ''123'' ''alice'' ''main''
           \<lparr>State = ''waiting'', PlayerCount = 2, MaxPlayers = 100,
            ServerTick = 0, Uptime = 0\<rparr>\<rparr>] \<and>
     send (conns srv' 2) =
       [\<lparr>Type = ''player_joined'',
         Payload = PlayerJoinedPayload ''123'' ''alice'' ''alice@example.com''\<rparr>] \<and>
     send (conns srv' 3) = []"
proof -
  obtain s0 where s0: "NewSession ''main'' cfg_default 0 = Inr s0"
    and f0: "players s0 = []" "connections s0 = []" "sess_ID s0 = ''main''" "config s0 = cfg_default"
    using NewSession_Inr [of "''main''" cfg_default 0] by auto
  let ?s1 = "snd (AddPlayer s0 (mk_player ''456'' ''bob'') 2)"
  let ?srv = "test_server ?s1 two_conns"
  have re: "reachable (session ?srv)"
    unfolding test_server_def using reachable.added [OF reachable.created [OF s0]] by simp
  have c1: "connections ?s1 = [(''456'', 2)]" and p1: "fst ` set (players ?s1) = {''456''}"
    and i1: "sess_ID ?s1 = ''main''" and g1: "config ?s1 = cfg_default"
    by (simp_all add: AddPlayer_def Let_def f0 mk_player_sel)
  have h: "player (conns ?srv 1) = Some (mk_player ''123'' ''alice'')"
    "authenticated (conns ?srv 1)"
    "distinct (map snd (connections (session ?srv)))"
    "\<not> send_closed (conns ?srv 1)"
    "\<forall>c' \<in> snd ` set (connections (session ?srv)). \<not> send_closed (conns ?srv c')"
    by (simp_all add: test_server_def two_conns_def authed_def NewConnection_def c1)
  from handleJoin_admits [OF h(1) h(2) re h(3) h(4) h(5), of 1697123500]
  obtain srv' where hj: "handleJoin 1 1697123500 ?srv = Inr srv'"
    and k: "fst ` set (players (session srv')) =
              insert (ID (mk_player ''123'' ''alice'')) (fst ` set (players (session ?srv)))"
    and n: "PlayerCount (status (session srv')) = int (card (fst ` set (players (session srv'))))"
    and i: "sess_ID (session srv') = sess_ID (session ?srv)"
    and m: "MaxPlayers (status (session srv')) = Session_MaxPlayers (config (session ?srv))"
    and cm: "map_of (connections (session srv')) (ID (mk_player ''123'' ''alice'')) = Some 1"
    and q1: "conns srv' 1 =
       offer (welcome_msg (mk_player ''123'' ''alice'') (session srv'))
         ((conns ?srv 1)\<lparr>player := Some (joined_player (mk_player ''123'' ''alice'') 1697123500 (session ?srv))\<rparr>)"
    and q: "\<forall>c'. c' \<noteq> 1 \<longrightarrow>
        conns srv' c' =
          (if c' \<in> snd ` set (connections (session srv'))
           then offer (player_joined_msg (mk_player ''123'' ''alice'')) (conns ?srv c') else conns ?srv c')"
    and se: "session srv' = snd (AddPlayer (session ?srv) (joined_player (mk_player ''123'' ''alice'') 1697123500 (session ?srv)) 1)"
    by auto
  have keys: "fst ` set (players (session srv')) = {''123'', ''456''}"
    using k by (simp add: test_server_def p1 mk_player_sel)
  then have cnt: "PlayerCount (status (session srv')) = 2" using n by simp
  have a: "send (conns srv' 1) =
       [\<lparr>Type = ''welcome'',
         Payload = WelcomePayload ''123'' ''alice'' ''main''
           \<lparr>State = ''waiting'', PlayerCount = 2, MaxPlayers = 100,
            ServerTick = 0, Uptime = 0\<rparr>\<rparr>]"
    using q1 i m
    by (simp add: cnt welcome_msg_def offer_def test_server_def two_conns_def authed_def
        NewConnection_def i1 g1 cfg_default_def mk_player_sel)
  have ros: "snd ` set (connections (session srv')) = {1, 2}"
    unfolding se
    by (auto simp add: AddPlayer_def Let_def test_server_def f0 joined_player_def mk_player_sel)
  have b: "send (conns srv' 2) =
       [\<lparr>Type = ''player_joined'',
         Payload = PlayerJoinedPayload ''123'' ''alice'' ''alice@example.com''\<rparr>]"
    using q [rule_format, of 2]
    by (simp add: ros player_joined_msg_def offer_def test_server_def two_conns_def authed_def
        NewConnection_def mk_player_sel)
  have c: "send (conns srv' 3) = []"
    using q [rule_format, of 3]
    by (simp add: ros test_server_def two_conns_def NewConnection_def)
  from s0 hj keys a b c show ?thesis by blast
qed

section \<open>Chat\<close>

lemma chat_burst_three:
  "conns srv 1 = (authed p1)\<lparr>send := q1\<rparr> \<Longrightarrow>
   conns srv 2 = (authed (mk_player ''2'' ''bob''))\<lparr>send := q2\<rparr> \<Longrightarrow>
   conns srv 3 = (authed p3)\<lparr>send := q3\<rparr> \<Longrightarrow>
   length q1 + length ts \<le> 256 \<Longrightarrow> length q2 + length ts \<le> 256 \<Longrightarrow>
   length q3 + length ts \<le> 256 \<Longrightarrow>
   map snd (connections (session srv)) = [1, 2, 3] \<Longrightarrow>
   \<exists>srv'. chat_burst 2 ts srv = Inr srv' \<and>
     send (conns srv' 1) = q1 @ map chat_from_bob ts \<and>
     send (conns srv' 2) = q2 @ map chat_from_bob ts \<and>
     send (conns srv' 3) = q3 @ map chat_from_bob ts \<and>
     srv_config srv' = srv_config srv"
proof (induction ts arbitrary: srv q1 q2 q3)
  case Nil
  then show ?case by (simp add: authed_def)
next
  case (Cons t ts)
  let ?srv1 = "srv\<lparr>conns := (conns srv)
        (1 := (authed p1)\<lparr>send := q1 @ [chat_from_bob t]\<rparr>,
         2 := (authed (mk_player ''2'' ''bob''))\<lparr>send := q2 @ [chat_from_bob t]\<rparr>,
         3 := (authed p3)\<lparr>send := q3 @ [chat_from_bob t]\<rparr>)\<rparr>"
  from Cons.prems have step: "handleChat 2 (Some \<lparr>Message = ''hi''\<rparr>) t srv = Inr ?srv1"
    by (simp add: handleChat_def authed_def NewConnection_def BroadcastMessage_def
        SendMessage_def json_Marshal_def Let_def mk_player_def chat_from_bob_def
        MsgTypeChatBroadcast_def)
  from Cons.prems
  have "\<exists>srv'. chat_burst 2 ts ?srv1 = Inr srv' \<and>
     send (conns srv' 1) = (q1 @ [chat_from_bob t]) @ map chat_from_bob ts \<and>
     send (conns srv' 2) = (q2 @ [chat_from_bob t]) @ map chat_from_bob ts \<and>
     send (conns srv' 3) = (q3 @ [chat_from_bob t]) @ map chat_from_bob ts \<and>
     srv_config srv' = srv_config ?srv1"
    by (intro Cons.IH) simp_all
  with step show ?case by simp
qed

text \<open>
  Claim C4 (the code does not do this). Three clients have joined and their queues are
  empty; the second sends eleven chat messages within eleven seconds, with the rate
  limit configured to 10 per minute. \<open>handleChat\<close> broadcasts all eleven: every one of
  the three queues, the sender's included, holds the eleven chat messages and nothing
  else, so no \<open>rate_limited\<close> error was sent and the eleventh message was not held back.
\<close>

theorem eleventh_chat_is_broadcast:
  "\<exists>srv'. chat_burst 2 [1697123500, 1697123501, 1697123502, 1697123503, 1697123504, 1697123505,
                   1697123506, 1697123507, 1697123508, 1697123509, 1697123510] three_joined = Inr srv' \<and>
     send (conns srv' 1) = map chat_from_bob [1697123500..1697123510] \<and>
     send (conns srv' 2) = map chat_from_bob [1697123500..1697123510] \<and>
     send (conns srv' 3) = map chat_from_bob [1697123500..1697123510] \<and>
     Chat_RateLimit (srv_config srv') = 10"
proof -
  have "\<exists>srv'. chat_burst 2 [1697123500, 1697123501, 1697123502, 1697123503, 1697123504, 1697123505,
                   1697123506, 1697123507, 1697123508, 1697123509, 1697123510] three_joined = Inr srv' \<and>
     send (conns srv' 1) = [] @ map chat_from_bob [1697123500, 1697123501, 1697123502, 1697123503,
        1697123504, 1697123505, 1697123506, 1697123507, 1697123508, 1697123509, 1697123510] \<and>
     send (conns srv' 2) = [] @ map chat_from_bob [1697123500, 1697123501, 1697123502, 1697123503,
        1697123504, 1697123505, 1697123506, 1697123507, 1697123508, 1697123509, 1697123510] \<and>
     send (conns srv' 3) = [] @ map chat_from_bob [1697123500, 1697123501, 1697123502, 1697123503,
        1697123504, 1697123505, 1697123506, 1697123507, 1697123508, 1697123509, 1697123510] \<and>
     srv_config srv' = srv_config three_joined"
    by (rule chat_burst_three [where ?p1.0 = "mk_player ''1'' ''ann''" and ?p3.0 = "mk_player ''3'' ''cat''"])
       (simp_all add: three_joined_def test_server_def authed_def NewConnection_def)
  moreover have "Chat_RateLimit (srv_config three_joined) = 10"
    by (simp add: three_joined_def test_server_def cfg_default_def)
  moreover have "[1697123500..1697123510] = [1697123500, 1697123501, 1697123502, 1697123503,
        1697123504, 1697123505, 1697123506, 1697123507, 1697123508, 1697123509, 1697123510::int]"
    by simp
  ultimately show ?thesis by auto
qed

section \<open>Credentials\<close>

lemma test_lib_good:
  "test_lib ''good.token'' (keyfunc \<lparr>jwt_config = cfg, publicKey = ECDSAPublicKey 1 2\<rparr>) =
     Inr \<lparr>Method = SigningMethodECDSA, TokenClaims = good_claims, Valid = True\<rparr>"
  by (simp add: test_lib_def keyfunc_def Let_def)

lemma FormatInt_123: "FormatInt 123 = ''123''"
  by (simp add: FormatInt_def digits10.simps)

lemma jwtValidator_three: "jwtValidator three_joined = \<lparr>jwt_config = cfg_default, publicKey = ECDSAPublicKey 1 2\<rparr>"
  by (simp add: three_joined_def test_server_def)

lemma parse_decode_error:
  "lib_decode lib tok = Inl err \<Longrightarrow>
   ValidateToken v (with_library lib redis now) tok = ([], Inl (ParseFailed err))"
  by (simp add: ValidateToken_def with_library_def jwt_v5_ParseWithClaims_def)

lemma parse_other_method:
  "lib_decode lib tok = Inr token \<Longrightarrow> Method token = SigningMethodOther alg \<Longrightarrow>
   ValidateToken v (with_library lib redis now) tok =
     ([], Inl (ParseFailed (ErrTokenUnverifiable UnexpectedSigningMethod)))"
  by (simp add: ValidateToken_def with_library_def jwt_v5_ParseWithClaims_def keyfunc_def)

lemma parse_bad_signature:
  "lib_decode lib tok = Inr token \<Longrightarrow> Method token = SigningMethodECDSA \<Longrightarrow>
   \<not> lib_verify lib SigningMethodECDSA tok (publicKey v) \<Longrightarrow>
   ValidateToken v (with_library lib redis now) tok =
     ([], Inl (ParseFailed ErrTokenSignatureInvalid))"
  by (simp add: ValidateToken_def with_library_def jwt_v5_ParseWithClaims_def keyfunc_def)

lemma parse_invalid_claims:
  "lib_decode lib tok = Inr token \<Longrightarrow> Method token = SigningMethodECDSA \<Longrightarrow>
   lib_verify lib SigningMethodECDSA tok (publicKey v) \<Longrightarrow>
   validate_registered (TokenClaims token) now = e # es \<Longrightarrow>
   ValidateToken v (with_library lib redis now) tok =
     ([], Inl (ParseFailed (ErrTokenInvalidClaims (e # es))))"
  by (simp add: ValidateToken_def with_library_def jwt_v5_ParseWithClaims_def keyfunc_def)

lemma parse_verified:
  "lib_decode lib tok = Inr token \<Longrightarrow> Method token = SigningMethodECDSA \<Longrightarrow>
   lib_verify lib SigningMethodECDSA tok (publicKey v) \<Longrightarrow>
   validate_registered (TokenClaims token) now = [] \<Longrightarrow>
   jwt_ParseWithClaims (with_library lib redis now) tok (keyfunc v) = Inr (token\<lparr>Valid := True\<rparr>)"
  by (simp add: with_library_def jwt_v5_ParseWithClaims_def keyfunc_def)

lemma validate_registered_Nil:
  "validate_registered claims now = [] \<longleftrightarrow>
     \<not> (case ExpiresAt claims of None \<Rightarrow> False | Some e \<Rightarrow> e \<le> now) \<and>
     \<not> (case NotBefore claims of None \<Rightarrow> False | Some n \<Rightarrow> now < n)"
  by (simp add: validate_registered_def split: option.splits)

lemma after_parse:
  assumes "jwt_ParseWithClaims env tok (keyfunc v) = Inr token" and "Valid token"
  shows "ValidateToken v env tok =
     (let claims = TokenClaims token in
      if Issuer claims \<noteq> JWT_Issuer (jwt_config v)
        then ([], Inl (InvalidIssuer (JWT_Issuer (jwt_config v)) (Issuer claims)))
      else if (case ExpiresAt claims of None \<Rightarrow> False | Some e \<Rightarrow> e < time_Now env)
        then ([], Inl TokenExpired)
      else if claim_Activated claims = 0 then ([], Inl UserNotActivated)
      else if claim_Activated claims = - 1 then ([], Inl UserBanned)
      else (case redis_Exists env (blacklistKey v claims) of
              Inl err \<Rightarrow> ([''Warning: Failed to check blacklist''], Inr (player_of_claims claims))
            | Inr n \<Rightarrow> if 0 < n then ([], Inl TokenBlacklisted)
                       else ([], Inr (player_of_claims claims))))"
  using assms by (simp add: ValidateToken_def Let_def blacklistKey_def)

lemma refused:
  assumes "refusal_reasons v lib redis now tok"
  shows "\<exists>e. ValidateToken v (with_library lib redis now) tok = ([], Inl e)"
proof (cases "lib_decode lib tok")
  case (Inl err)
  then show ?thesis by (simp add: parse_decode_error)
next
  case (Inr token)
  show ?thesis
  proof (cases "Method token")
    case (SigningMethodOther alg)
    with Inr show ?thesis by (simp add: parse_other_method)
  next
    case SigningMethodECDSA
    show ?thesis
    proof (cases "lib_verify lib SigningMethodECDSA tok (publicKey v)")
      case False
      with Inr SigningMethodECDSA show ?thesis by (simp add: parse_bad_signature)
    next
      case True
      show ?thesis
      proof (cases "validate_registered (TokenClaims token) now")
        case (Cons e es)
        with Inr SigningMethodECDSA True show ?thesis by (simp add: parse_invalid_claims)
      next
        case Nil
        have p: "jwt_ParseWithClaims (with_library lib redis now) tok (keyfunc v) = Inr (token\<lparr>Valid := True\<rparr>)"
          using Inr SigningMethodECDSA True Nil by (rule parse_verified)
        have t: "\<not> (case ExpiresAt (TokenClaims token) of None \<Rightarrow> False | Some e \<Rightarrow> e \<le> now)"
            "\<not> (case NotBefore (TokenClaims token) of None \<Rightarrow> False | Some n \<Rightarrow> now < n)"
          using Nil by (simp_all add: validate_registered_Nil)
        have r: "Issuer (TokenClaims token) \<noteq> JWT_Issuer (jwt_config v) \<or>
            claim_Activated (TokenClaims token) = 0 \<or> claim_Activated (TokenClaims token) = - 1 \<or>
            reported_revoked v redis (TokenClaims token)"
          using assms Inr SigningMethodECDSA True t
          by (simp add: refusal_reasons_def signature_verifies_def)
        have rr: "redis_Exists (with_library lib redis now) = redis"
          by (simp add: with_library_def)
        show ?thesis
          using r unfolding after_parse [OF p, simplified] Let_def rr reported_revoked_def
          by (auto split: sum.splits option.splits)
      qed
    qed
  qed
qed

lemma accepted:
  assumes "\<not> refusal_reasons v lib redis now tok"
  shows "\<exists>token. lib_decode lib tok = Inr token \<and>
           snd (ValidateToken v (with_library lib redis now) tok) =
             Inr (player_of_claims (TokenClaims token))"
proof -
  from assms obtain token where d: "lib_decode lib tok = Inr token"
    by (cases "lib_decode lib tok") (simp_all add: refusal_reasons_def signature_verifies_def)
  from assms d have m: "Method token = SigningMethodECDSA"
      and s: "lib_verify lib SigningMethodECDSA tok (publicKey v)"
      and i: "Issuer (TokenClaims token) = JWT_Issuer (jwt_config v)"
      and e: "\<not> (case ExpiresAt (TokenClaims token) of None \<Rightarrow> False | Some e \<Rightarrow> e \<le> now)"
      and n: "\<not> (case NotBefore (TokenClaims token) of None \<Rightarrow> False | Some n \<Rightarrow> now < n)"
      and a: "claim_Activated (TokenClaims token) \<noteq> 0" "claim_Activated (TokenClaims token) \<noteq> - 1"
      and b: "\<not> reported_revoked v redis (TokenClaims token)"
    by (simp_all add: refusal_reasons_def signature_verifies_def)
  have v: "validate_registered (TokenClaims token) now = []"
    using e n by (simp add: validate_registered_Nil)
  have p: "jwt_ParseWithClaims (with_library lib redis now) tok (keyfunc v) = Inr (token\<lparr>Valid := True\<rparr>)"
    using d m s v by (rule parse_verified)
  have rr: "redis_Exists (with_library lib redis now) = redis" "time_Now (with_library lib redis now) = now"
    by (simp_all add: with_library_def)
  have e': "\<not> (case ExpiresAt (TokenClaims token) of None \<Rightarrow> False | Some e \<Rightarrow> e < now)"
    using e by (simp split: option.splits)
  have "snd (ValidateToken v (with_library lib redis now) tok) = Inr (player_of_claims (TokenClaims token))"
    using i e' a b unfolding after_parse [OF p, simplified] Let_def rr reported_revoked_def
    by (simp split: sum.splits)
  with d show ?thesis by simp
qed

lemma claimed_is_refusal:
  "claimed_reasons v lib redis now tok \<Longrightarrow> refusal_reasons v lib redis now tok"
  by (auto simp add: claimed_reasons_def refusal_reasons_def split: sum.splits option.splits)


lemma handleWebSocket_refuses:
  assumes "ValidateToken (jwtValidator s) env tok = ([], Inl e)"
    and "extractTokenFromHeader r = Inr tok"
  shows "handleWebSocket s env r up =
           (Unauthorized (if tok = [] then MissingAuthenticationToken else InvalidToken e), s)"
  using assms by (simp add: handleWebSocket_def)

lemma test_jwt_decode:
  "lib_decode test_jwt t =
     (if t = ''good.token'' then
        Inr \<lparr>Method = SigningMethodECDSA, TokenClaims = good_claims, Valid = False\<rparr>
      else if t = ''early.token'' then
        Inr \<lparr>Method = SigningMethodECDSA,
             TokenClaims = good_claims\<lparr>NotBefore := Some 1697123600\<rparr>, Valid = False\<rparr>
      else if t = ''ending.token'' then
        Inr \<lparr>Method = SigningMethodECDSA,
             TokenClaims = good_claims\<lparr>ExpiresAt := Some 1697123500\<rparr>, Valid = False\<rparr>
      else if t = ''hs256.token'' then
        Inr \<lparr>Method = SigningMethodOther ''HS256'', TokenClaims = good_claims, Valid = False\<rparr>
      else Inl ErrTokenMalformed)"
  by (simp add: test_jwt_def)

lemma test_jwt_verify:
  "lib_verify test_jwt m t k =
     (if m = SigningMethodECDSA
        then k = ECDSAPublicKey 1 2 \<and>
             (t = ''good.token'' \<or> t = ''early.token'' \<or> t = ''ending.token'')
      else t = ''hs256.token'')"
  by (simp add: test_jwt_def)

lemma extract_bearer: "7 < length (''Bearer '' @ t) \<Longrightarrow> extractTokenFromHeader (bearer t) = Inr t"
  by (simp add: extractTokenFromHeader_def bearer_def)

text \<open>
  Claim C1, as amended. A token string is refused for one of these reasons: it does not
  decode, or its signature does not verify as an ECDSA signature with the cached key;
  the issuer differs from the configured one; the expiration time is not after the
  clock; the not-before time is after the clock; the activation claim is 0 or -1; the
  revocation store reports the subject present. Every reason the claim lists is one of
  them. For a token string with one of these reasons \<open>ValidateToken\<close> returns an error
  and logs nothing, and \<open>handleWebSocket\<close>, whatever the handshake would have given,
  answers 401 and leaves the server (the session and its rosters, the connections, the
  registry) as it was. For a token string with none of them \<open>ValidateToken\<close> returns the
  player made of the claims of the token.
\<close>

theorem ValidateToken_gate:
  "(claimed_reasons v lib redis now tok \<longrightarrow> refusal_reasons v lib redis now tok) \<and>
   (refusal_reasons v lib redis now tok \<longrightarrow>
      (\<exists>e. ValidateToken v (with_library lib redis now) tok = ([], Inl e) \<and>
           (\<forall>s r up. jwtValidator s = v \<and> extractTokenFromHeader r = Inr tok \<longrightarrow>
              handleWebSocket s (with_library lib redis now) r up =
                (Unauthorized (if tok = [] then MissingAuthenticationToken else InvalidToken e),
                 s)))) \<and>
   (\<not> refusal_reasons v lib redis now tok \<longrightarrow>
      (\<exists>token. lib_decode lib tok = Inr token \<and>
         snd (ValidateToken v (with_library lib redis now) tok) =
           Inr \<lparr>ID = FormatInt (UserID (TokenClaims token)),
                Username = claim_Username (TokenClaims token),
                Email = claim_Email (TokenClaims token),
                UserType = claim_UserType (TokenClaims token),
                Permissions = claim_Permissions (TokenClaims token),
                Activated = claim_Activated (TokenClaims token),
                AuthMethod = claim_AuthMethod (TokenClaims token),
                Connected = False, ConnectedAt = 0, LastSeen = 0, SessionID = [],
                EmpireID = FormatInt (UserID (TokenClaims token))\<rparr>))"
proof (intro conjI impI)
  assume "claimed_reasons v lib redis now tok"
  then show "refusal_reasons v lib redis now tok" by (rule claimed_is_refusal)
next
  assume "refusal_reasons v lib redis now tok"
  then obtain e where e: "ValidateToken v (with_library lib redis now) tok = ([], Inl e)"
    using refused by blast
  have "\<forall>s r up. jwtValidator s = v \<and> extractTokenFromHeader r = Inr tok \<longrightarrow>
          handleWebSocket s (with_library lib redis now) r up =
            (Unauthorized (if tok = [] then MissingAuthenticationToken else InvalidToken e), s)"
    using e by (simp add: handleWebSocket_refuses)
  with e show "\<exists>e. ValidateToken v (with_library lib redis now) tok = ([], Inl e) \<and>
           (\<forall>s r up. jwtValidator s = v \<and> extractTokenFromHeader r = Inr tok \<longrightarrow>
              handleWebSocket s (with_library lib redis now) r up =
                (Unauthorized (if tok = [] then MissingAuthenticationToken else InvalidToken e),
                 s))"
    by blast
next
  assume "\<not> refusal_reasons v lib redis now tok"
  then obtain token where "lib_decode lib tok = Inr token"
    and "snd (ValidateToken v (with_library lib redis now) tok) =
           Inr (player_of_claims (TokenClaims token))"
    using accepted by blast
  then show "\<exists>token. lib_decode lib tok = Inr token \<and>
         snd (ValidateToken v (with_library lib redis now) tok) =
           Inr \<lparr>ID = FormatInt (UserID (TokenClaims token)),
                Username = claim_Username (TokenClaims token),
                Email = claim_Email (TokenClaims token),
                UserType = claim_UserType (TokenClaims token),
                Permissions = claim_Permissions (TokenClaims token),
                Activated = claim_Activated (TokenClaims token),
                AuthMethod = claim_AuthMethod (TokenClaims token),
                Connected = False, ConnectedAt = 0, LastSeen = 0, SessionID = [],
                EmpireID = FormatInt (UserID (TokenClaims token))\<rparr>"
    by (intro exI [of _ token]) (simp add: player_of_claims_def Let_def)
qed

text \<open>
  Three token strings presented to the server \<open>three_joined\<close>, whose validator holds the
  key \<open>ECDSAPublicKey 1 2\<close>, at second 1697123500 with an empty revocation store: a
  string that does not decode and a token whose header names HS256 (with a signature
  that HS256 accepts) are answered 401 and leave the server as it was; the token signed
  for the key is accepted as the player 123, alice.
\<close>

theorem ValidateToken_gate_witness:
  "refusal_reasons \<lparr>jwt_config = cfg_default, publicKey = ECDSAPublicKey 1 2\<rparr>
     test_jwt no_revocations 1697123500 ''forged'' \<and>
   handleWebSocket three_joined (with_library test_jwt no_revocations 1697123500)
     (bearer ''forged'') True =
     (Unauthorized (InvalidToken (ParseFailed ErrTokenMalformed)), three_joined) \<and>
   refusal_reasons \<lparr>jwt_config = cfg_default, publicKey = ECDSAPublicKey 1 2\<rparr>
     test_jwt no_revocations 1697123500 ''hs256.token'' \<and>
   handleWebSocket three_joined (with_library test_jwt no_revocations 1697123500)
     (bearer ''hs256.token'') True =
     (Unauthorized (InvalidToken (ParseFailed (ErrTokenUnverifiable UnexpectedSigningMethod))),
      three_joined) \<and>
   \<not> refusal_reasons \<lparr>jwt_config = cfg_default, publicKey = ECDSAPublicKey 1 2\<rparr>
     test_jwt no_revocations 1697123500 ''good.token'' \<and>
   snd (ValidateToken \<lparr>jwt_config = cfg_default, publicKey = ECDSAPublicKey 1 2\<rparr>
          (with_library test_jwt no_revocations 1697123500) ''good.token'') =
     Inr (mk_player ''123'' ''alice'')"
proof -
  let ?v = "\<lparr>jwt_config = cfg_default, publicKey = ECDSAPublicKey 1 2\<rparr>"
  let ?env = "with_library test_jwt no_revocations 1697123500"
  have r1: "refusal_reasons ?v test_jwt no_revocations 1697123500 ''forged''"
    by (simp add: refusal_reasons_def signature_verifies_def test_jwt_decode)
  have r2: "refusal_reasons ?v test_jwt no_revocations 1697123500 ''hs256.token''"
    by (simp add: refusal_reasons_def signature_verifies_def test_jwt_decode)
  have r3: "\<not> refusal_reasons ?v test_jwt no_revocations 1697123500 ''good.token''"
    by (simp add: refusal_reasons_def signature_verifies_def test_jwt_decode test_jwt_verify
        reported_revoked_def no_revocations_def good_claims_def cfg_default_def)
  have v1: "ValidateToken ?v ?env ''forged'' = ([], Inl (ParseFailed ErrTokenMalformed))"
    by (rule parse_decode_error) (simp add: test_jwt_decode)
  have v2: "ValidateToken ?v ?env ''hs256.token'' =
      ([], Inl (ParseFailed (ErrTokenUnverifiable UnexpectedSigningMethod)))"
    by (rule parse_other_method [where alg = "''HS256''"
          and token = "\<lparr>Method = SigningMethodOther ''HS256'', TokenClaims = good_claims, Valid = False\<rparr>"])
       (simp_all add: test_jwt_decode)
  have h1: "handleWebSocket three_joined ?env (bearer ''forged'') True =
      (Unauthorized (InvalidToken (ParseFailed ErrTokenMalformed)), three_joined)"
    using ValidateToken_gate [of ?v test_jwt no_revocations 1697123500 "''forged''"] r1 v1
    by (auto simp add: jwtValidator_three extract_bearer)
  have h2: "handleWebSocket three_joined ?env (bearer ''hs256.token'') True =
      (Unauthorized (InvalidToken (ParseFailed (ErrTokenUnverifiable UnexpectedSigningMethod))),
       three_joined)"
    using ValidateToken_gate [of ?v test_jwt no_revocations 1697123500 "''hs256.token''"] r2 v2
    by (auto simp add: jwtValidator_three extract_bearer)
  have h3: "snd (ValidateToken ?v ?env ''good.token'') = Inr (mk_player ''123'' ''alice'')"
    using ValidateToken_gate [of ?v test_jwt no_revocations 1697123500 "''good.token''"] r3
    by (auto simp add: test_jwt_decode good_claims_def mk_player_def FormatInt_123)
  from r1 r2 r3 h1 h2 h3 show ?thesis by simp
qed

text \<open>
  The claim C1 as it was stated fails in its second half: of the time stamps it lists
  only an expiration time before the clock, but the library, inside
  \<open>jwt.ParseWithClaims\<close>, also refuses a token whose not-before time is after the clock,
  and one whose expiration time is the clock's. At second 1697123500, \<open>early.token\<close> (not
  valid before 1697123600) and \<open>ending.token\<close> (expiring at 1697123500) are signed for
  the cached key, carry the configured issuer and a positive activation claim, and are
  not revoked: none of the listed reasons holds, and \<open>ValidateToken\<close> returns an error.
\<close>

theorem ValidateToken_refuses_unlisted:
  "\<not> claimed_reasons \<lparr>jwt_config = cfg_default, publicKey = ECDSAPublicKey 1 2\<rparr>
       test_jwt no_revocations 1697123500 ''early.token'' \<and>
   ValidateToken \<lparr>jwt_config = cfg_default, publicKey = ECDSAPublicKey 1 2\<rparr>
     (with_library test_jwt no_revocations 1697123500) ''early.token'' =
     ([], Inl (ParseFailed (ErrTokenInvalidClaims [ErrTokenNotValidYet]))) \<and>
   \<not> claimed_reasons \<lparr>jwt_config = cfg_default, publicKey = ECDSAPublicKey 1 2\<rparr>
       test_jwt no_revocations 1697123500 ''ending.token'' \<and>
   ValidateToken \<lparr>jwt_config = cfg_default, publicKey = ECDSAPublicKey 1 2\<rparr>
     (with_library test_jwt no_revocations 1697123500) ''ending.token'' =
     ([], Inl (ParseFailed (ErrTokenInvalidClaims [ErrTokenExpired])))"
proof -
  let ?v = "\<lparr>jwt_config = cfg_default, publicKey = ECDSAPublicKey 1 2\<rparr>"
  have c1: "\<not> claimed_reasons ?v test_jwt no_revocations 1697123500 ''early.token''"
    by (simp add: claimed_reasons_def signature_verifies_def test_jwt_decode test_jwt_verify
        reported_revoked_def no_revocations_def good_claims_def cfg_default_def)
  have c2: "\<not> claimed_reasons ?v test_jwt no_revocations 1697123500 ''ending.token''"
    by (simp add: claimed_reasons_def signature_verifies_def test_jwt_decode test_jwt_verify
        reported_revoked_def no_revocations_def good_claims_def cfg_default_def)
  have v1: "ValidateToken ?v (with_library test_jwt no_revocations 1697123500) ''early.token'' =
      ([], Inl (ParseFailed (ErrTokenInvalidClaims [ErrTokenNotValidYet])))"
    by (rule parse_invalid_claims
          [where token = "\<lparr>Method = SigningMethodECDSA,
             TokenClaims = good_claims\<lparr>NotBefore := Some 1697123600\<rparr>, Valid = False\<rparr>"])
       (simp_all add: test_jwt_decode test_jwt_verify validate_registered_def good_claims_def)
  have v2: "ValidateToken ?v (with_library test_jwt no_revocations 1697123500) ''ending.token'' =
      ([], Inl (ParseFailed (ErrTokenInvalidClaims [ErrTokenExpired])))"
    by (rule parse_invalid_claims
          [where token = "\<lparr>Method = SigningMethodECDSA,
             TokenClaims = good_claims\<lparr>ExpiresAt := Some 1697123500\<rparr>, Valid = False\<rparr>"])
       (simp_all add: test_jwt_decode test_jwt_verify validate_registered_def good_claims_def)
  from c1 c2 v1 v2 show ?thesis by simp
qed

text \<open>
  Claim C2. For a token that passes the signature, issuer, expiration and activation
  checks: when the lookup in the revocation store fails, \<open>ValidateToken\<close> logs a warning
  and returns the player (fail open, with a warning); when the lookup succeeds and
  reports the key present, it returns the error \<open>token is blacklisted\<close> (fail closed);
  when the lookup succeeds and reports the key absent, it returns the player and logs
  nothing.
\<close>

theorem blacklist_lookup_policy:
  assumes "jwt_ParseWithClaims env tok (keyfunc v) = Inr token" and "Valid token"
    and "Issuer (TokenClaims token) = JWT_Issuer (jwt_config v)"
    and "\<not> (case ExpiresAt (TokenClaims token) of None \<Rightarrow> False | Some e \<Rightarrow> e < time_Now env)"
    and "claim_Activated (TokenClaims token) \<noteq> 0" and "claim_Activated (TokenClaims token) \<noteq> - 1"
  shows "(case redis_Exists env (blacklistKey v (TokenClaims token)) of
            Inl err \<Rightarrow>
              ValidateToken v env tok =
                ([''Warning: Failed to check blacklist''], Inr (player_of_claims (TokenClaims token)))
          | Inr n \<Rightarrow>
              if 0 < n then ValidateToken v env tok = ([], Inl TokenBlacklisted)
              else ValidateToken v env tok = ([], Inr (player_of_claims (TokenClaims token))))"
  using assms
  by (simp add: ValidateToken_def Let_def blacklistKey_def split: sum.splits)

theorem blacklist_lookup_policy_witness:
  "ValidateToken \<lparr>jwt_config = cfg_default, publicKey = ECDSAPublicKey 1 2\<rparr>
     (test_env (\<lambda>k. Inl (LibraryError ''dial tcp: connection refused''))) ''good.token'' =
     ([''Warning: Failed to check blacklist''], Inr (mk_player ''123'' ''alice'')) \<and>
   ValidateToken \<lparr>jwt_config = cfg_default, publicKey = ECDSAPublicKey 1 2\<rparr>
     (test_env (\<lambda>k. if k = ''blacklist:123'' then Inr 1 else Inr 0)) ''good.token'' =
     ([], Inl TokenBlacklisted)"
proof -
  let ?v = "\<lparr>jwt_config = cfg_default, publicKey = ECDSAPublicKey 1 2\<rparr>"
  let ?t = "\<lparr>Method = SigningMethodECDSA, TokenClaims = good_claims, Valid = True\<rparr>"
  have key: "blacklistKey ?v good_claims = ''blacklist:123''"
    by (simp add: blacklistKey_def cfg_default_def good_claims_def FormatInt_123)
  have pl: "player_of_claims good_claims = mk_player ''123'' ''alice''"
    by (simp add: player_of_claims_def good_claims_def mk_player_def FormatInt_123 Let_def)
  have "ValidateToken ?v (test_env (\<lambda>k. Inl (LibraryError ''dial tcp: connection refused''))) ''good.token'' =
     ([''Warning: Failed to check blacklist''], Inr (mk_player ''123'' ''alice''))"
    using blacklist_lookup_policy [of "test_env (\<lambda>k. Inl (LibraryError ''dial tcp: connection refused''))"
        "''good.token''" ?v ?t]
    by (simp add: test_env_def test_lib_good pl) (simp add: good_claims_def cfg_default_def test_env_def)
  moreover have "ValidateToken ?v (test_env (\<lambda>k. if k = ''blacklist:123'' then Inr 1 else Inr 0)) ''good.token'' =
     ([], Inl TokenBlacklisted)"
    using blacklist_lookup_policy [of "test_env (\<lambda>k. if k = ''blacklist:123'' then Inr 1 else Inr 0)"
        "''good.token''" ?v ?t]
    by (simp add: test_env_def test_lib_good key) (simp add: good_claims_def cfg_default_def test_env_def)
  ultimately show ?thesis by simp
qed

end
